theory Spec2Isabelle
  imports Main
begin

section \<open>Strings\<close>

text \<open>
  A string of the program is a sequence of UTF-16 code units. The texts a caller sends
  (names, urls, descriptions), which the controllers trim, are lists of code units, each
  a natural number below 65536; nothing below depends on that bound. Identifiers and
  messages, which the services and controllers only compare and concatenate, and the
  strings of the document upload stay lists of characters. str turns a literal of the
  source into code units.
\<close>

type_synonym jsString = "nat list"

definition str :: "string \<Rightarrow> jsString" where
  "str s = map of_char s"

section \<open>The relational store\<close>

text \<open>
  The tables of the migration (projects, project_apps, mcp_servers), the apps table the
  projects service joins against and the user_secrets table that mcp_servers refers to.
  A table is the list of its rows; a nullable column is an option; a Date is the number
  of milliseconds it holds. The apps and user_secrets tables are declared outside the
  migration: of an App row only the two columns the service reads are named, the others
  are kept together in one field, and of user_secrets only the ids, which the foreign key
  of mcp_servers needs. A statement on these tables fails only by violating a constraint
  of the migration. The users table is not modelled: every user id below is the id of the
  authenticated caller, whose row exists. Failures of the storage service are left out.
\<close>

type_synonym timestamp = int

datatype project_status = Active | Archived | Draft

record project =
  p_id :: string
  p_userId :: string
  p_name :: jsString
  p_description :: "jsString option"
  p_status :: project_status
  p_createdAt :: "timestamp option"
  p_updatedAt :: "timestamp option"

record projectApp =
  pa_id :: string
  pa_projectId :: string
  pa_appId :: string
  pa_addedAt :: "timestamp option"

record app =
  a_id :: string
  a_userId :: string
  a_columns :: string

datatype transport = Http | Sse | Stdio

datatype authType = AuthNone | Bearer | ApiKey

datatype server_status = Connected | Disconnected | ErrorStatus | Unknown

record mcpServer =
  s_id :: string
  s_userId :: string
  s_name :: jsString
  s_url :: jsString
  s_transport :: transport
  s_authType :: authType
  s_authSecretId :: "string option"
  s_enabled :: "bool option"
  s_status :: server_status
  s_lastChecked :: "timestamp option"
  s_lastError :: "string option"
  s_description :: "jsString option"
  s_createdAt :: "timestamp option"
  s_updatedAt :: "timestamp option"

record db =
  projects :: "project list"
  projectApps :: "projectApp list"
  apps :: "app list"
  mcpServers :: "mcpServer list"
  userSecrets :: "string list"

text \<open>
  What a statement that throws leaves behind: the service's catch block hands the error to
  handleDatabaseError, and the controller answers 500.
\<close>

datatype svc_error = DatabaseError

text \<open>
  The constraints of the migration that an insert can violate: the primary key of each
  table, the unique index on (project_id, app_id), the foreign keys of project_apps into
  projects and apps, and the foreign key of mcp_servers.auth_secret_id into user_secrets,
  which a NULL satisfies. An insert that violates one throws and stores nothing.
\<close>

definition insert_project :: "project \<Rightarrow> db \<Rightarrow> db option" where
  "insert_project row d =
     (if p_id row \<in> set (map p_id (projects d)) then None
      else Some (d\<lparr>projects := projects d @ [row]\<rparr>))"

definition insert_projectApp :: "projectApp \<Rightarrow> db \<Rightarrow> db option" where
  "insert_projectApp row d =
     (if pa_id row \<in> set (map pa_id (projectApps d))
         \<or> (pa_projectId row, pa_appId row)
              \<in> set (map (\<lambda>pa. (pa_projectId pa, pa_appId pa)) (projectApps d))
         \<or> pa_projectId row \<notin> set (map p_id (projects d))
         \<or> pa_appId row \<notin> set (map a_id (apps d))
      then None
      else Some (d\<lparr>projectApps := projectApps d @ [row]\<rparr>))"

definition secretExists :: "string option \<Rightarrow> db \<Rightarrow> bool" where
  "secretExists authSecretId d \<longleftrightarrow>
     (case authSecretId of None \<Rightarrow> True | Some secretId \<Rightarrow> secretId \<in> set (userSecrets d))"

definition insert_mcpServer :: "mcpServer \<Rightarrow> db \<Rightarrow> db option" where
  "insert_mcpServer row d =
     (if s_id row \<in> set (map s_id (mcpServers d)) \<or> \<not> secretExists (s_authSecretId row) d
      then None
      else Some (d\<lparr>mcpServers := mcpServers d @ [row]\<rparr>))"

text \<open>
  The invariant those constraints maintain: ids are unique within a table, and so are
  the (project_id, app_id) pairs of project_apps.
\<close>

definition wf_db :: "db \<Rightarrow> bool" where
  "wf_db d \<longleftrightarrow>
     distinct (map p_id (projects d)) \<and>
     distinct (map pa_id (projectApps d)) \<and>
     distinct (map (\<lambda>pa. (pa_projectId pa, pa_appId pa)) (projectApps d)) \<and>
     distinct (map a_id (apps d)) \<and>
     distinct (map s_id (mcpServers d))"

section \<open>ProjectsService\<close>

text \<open>
  The ownership-scoped lookup every method starts with:
  select from projects where id = projectId and userId = userId, limit 1.
\<close>

definition ownedProject :: "string \<Rightarrow> string \<Rightarrow> db \<Rightarrow> project option" where
  "ownedProject userId projectId d =
     find (\<lambda>p. p_id p = projectId \<and> p_userId p = userId) (projects d)"

definition appCount :: "string \<Rightarrow> db \<Rightarrow> nat" where
  "appCount projectId d = length (filter (\<lambda>pa. pa_projectId pa = projectId) (projectApps d))"

record projectInput =
  pi_name :: jsString
  pi_description :: "jsString option"

definition createProject ::
  "string \<Rightarrow> timestamp \<Rightarrow> timestamp \<Rightarrow> string \<Rightarrow> projectInput \<Rightarrow> db
     \<Rightarrow> (svc_error + project option) \<times> db" where
  "createProject newId createdNow updatedNow userId data d =
     (let newProject = \<lparr>p_id = newId, p_userId = userId, p_name = pi_name data,
                         p_description = pi_description data, p_status = Draft,
                         p_createdAt = Some createdNow, p_updatedAt = Some updatedNow\<rparr>
      in case insert_project newProject d of
           None \<Rightarrow> (Inl DatabaseError, d)
         | Some d' \<Rightarrow> (Inr (find (\<lambda>p. p_id p = newId) (projects d')), d'))"

definition getProject :: "string \<Rightarrow> string \<Rightarrow> db \<Rightarrow> (project \<times> nat) option" where
  "getProject userId projectId d =
     (case ownedProject userId projectId d of
        None \<Rightarrow> None
      | Some project \<Rightarrow> Some (project, appCount projectId d))"

text \<open>The partial update payload: a field that is undefined is None.\<close>

record projectUpdate =
  pu_name :: "jsString option"
  pu_description :: "jsString option"
  pu_status :: "project_status option"

definition setProject :: "timestamp \<Rightarrow> projectUpdate \<Rightarrow> project \<Rightarrow> project" where
  "setProject now data p =
     p\<lparr>p_name := (case pu_name data of None \<Rightarrow> p_name p | Some v \<Rightarrow> v),
       p_description := (case pu_description data of None \<Rightarrow> p_description p | Some v \<Rightarrow> Some v),
       p_status := (case pu_status data of None \<Rightarrow> p_status p | Some v \<Rightarrow> v),
       p_updatedAt := Some now\<rparr>"

definition updateProject ::
  "timestamp \<Rightarrow> string \<Rightarrow> string \<Rightarrow> projectUpdate \<Rightarrow> db \<Rightarrow> project option \<times> db" where
  "updateProject now userId projectId data d =
     (case ownedProject userId projectId d of
        None \<Rightarrow> (None, d)
      | Some existing \<Rightarrow>
          (let d' = d\<lparr>projects :=
                       map (\<lambda>p. if p_id p = projectId then setProject now data p else p)
                         (projects d)\<rparr>
           in (find (\<lambda>p. p_id p = projectId) (projects d'), d')))"

text \<open>
  The delete statement removes the project row; the foreign key of project_apps is
  declared ON DELETE cascade, so the store removes the project's links with it.
\<close>

definition deleteProject :: "string \<Rightarrow> string \<Rightarrow> db \<Rightarrow> bool \<times> db" where
  "deleteProject userId projectId d =
     (case ownedProject userId projectId d of
        None \<Rightarrow> (False, d)
      | Some existing \<Rightarrow>
          (True, d\<lparr>projects := filter (\<lambda>p. p_id p \<noteq> projectId) (projects d),
                   projectApps := filter (\<lambda>pa. pa_projectId pa \<noteq> projectId) (projectApps d)\<rparr>))"

definition addAppToProject ::
  "string \<Rightarrow> timestamp \<Rightarrow> string \<Rightarrow> string \<Rightarrow> string \<Rightarrow> db \<Rightarrow> (svc_error + bool) \<times> db" where
  "addAppToProject newId now userId projectId appId d =
     (case ownedProject userId projectId d of
        None \<Rightarrow> (Inr False, d)
      | Some project \<Rightarrow>
          (case find (\<lambda>a. a_id a = appId \<and> a_userId a = userId) (apps d) of
             None \<Rightarrow> (Inr False, d)
           | Some app \<Rightarrow>
               (case find (\<lambda>pa. pa_projectId pa = projectId \<and> pa_appId pa = appId)
                       (projectApps d) of
                  Some existing \<Rightarrow> (Inr True, d)
                | None \<Rightarrow>
                    (case insert_projectApp
                            \<lparr>pa_id = newId, pa_projectId = projectId, pa_appId = appId,
                             pa_addedAt = Some now\<rparr> d of
                       None \<Rightarrow> (Inl DatabaseError, d)
                     | Some d' \<Rightarrow> (Inr True, d')))))"

definition removeAppFromProject :: "string \<Rightarrow> string \<Rightarrow> string \<Rightarrow> db \<Rightarrow> bool \<times> db" where
  "removeAppFromProject userId projectId appId d =
     (case ownedProject userId projectId d of
        None \<Rightarrow> (False, d)
      | Some project \<Rightarrow>
          (True, d\<lparr>projectApps :=
                     filter (\<lambda>pa. \<not> (pa_projectId pa = projectId \<and> pa_appId pa = appId))
                       (projectApps d)\<rparr>))"

text \<open>
  The inner join of project_apps with apps on app_id = apps.id, restricted to the
  project's links: one result row for every pair of a link and an App row that match.
\<close>

definition getProjectApps :: "string \<Rightarrow> string \<Rightarrow> db \<Rightarrow> app list" where
  "getProjectApps userId projectId d =
     (case ownedProject userId projectId d of
        None \<Rightarrow> []
      | Some project \<Rightarrow>
          concat (map (\<lambda>pa. filter (\<lambda>a. pa_appId pa = a_id a) (apps d))
                    (filter (\<lambda>pa. pa_projectId pa = projectId) (projectApps d))))"

section \<open>MCPServersService\<close>

record mcpServerInput =
  si_name :: jsString
  si_url :: jsString
  si_transport :: "transport option"
  si_authType :: "authType option"
  si_authSecretId :: "string option"
  si_description :: "jsString option"
  si_enabled :: "bool option"

definition createServer ::
  "string \<Rightarrow> timestamp \<Rightarrow> timestamp \<Rightarrow> string \<Rightarrow> mcpServerInput \<Rightarrow> db
     \<Rightarrow> (svc_error + mcpServer option) \<times> db" where
  "createServer newId createdNow updatedNow userId data d =
     (let newServer =
            \<lparr>s_id = newId, s_userId = userId, s_name = si_name data, s_url = si_url data,
             s_transport = (case si_transport data of None \<Rightarrow> Http | Some t \<Rightarrow> t),
             s_authType = (case si_authType data of None \<Rightarrow> AuthNone | Some a \<Rightarrow> a),
             s_authSecretId = si_authSecretId data,
             s_enabled = Some (case si_enabled data of None \<Rightarrow> True | Some e \<Rightarrow> e),
             s_status = Unknown, s_lastChecked = None, s_lastError = None,
             s_description = si_description data,
             s_createdAt = Some createdNow, s_updatedAt = Some updatedNow\<rparr>
      in case insert_mcpServer newServer d of
           None \<Rightarrow> (Inl DatabaseError, d)
         | Some d' \<Rightarrow> (Inr (find (\<lambda>s. s_id s = newId) (mcpServers d')), d'))"

definition getServer :: "string \<Rightarrow> string \<Rightarrow> db \<Rightarrow> mcpServer option" where
  "getServer userId serverId d =
     find (\<lambda>s. s_id s = serverId \<and> s_userId s = userId) (mcpServers d)"

text \<open>
  Partial<MCPServerInput>: an undefined field is None. authSecretId and description
  may also be null, which is a value to store: Some None.
\<close>

record mcpServerUpdate =
  su_name :: "jsString option"
  su_url :: "jsString option"
  su_transport :: "transport option"
  su_authType :: "authType option"
  su_authSecretId :: "string option option"
  su_description :: "jsString option option"
  su_enabled :: "bool option"

definition setServer :: "timestamp \<Rightarrow> mcpServerUpdate \<Rightarrow> mcpServer \<Rightarrow> mcpServer" where
  "setServer now data s =
     s\<lparr>s_name := (case su_name data of None \<Rightarrow> s_name s | Some v \<Rightarrow> v),
       s_url := (case su_url data of None \<Rightarrow> s_url s | Some v \<Rightarrow> v),
       s_transport := (case su_transport data of None \<Rightarrow> s_transport s | Some v \<Rightarrow> v),
       s_authType := (case su_authType data of None \<Rightarrow> s_authType s | Some v \<Rightarrow> v),
       s_authSecretId := (case su_authSecretId data of None \<Rightarrow> s_authSecretId s | Some v \<Rightarrow> v),
       s_description := (case su_description data of None \<Rightarrow> s_description s | Some v \<Rightarrow> v),
       s_enabled := (case su_enabled data of None \<Rightarrow> s_enabled s | Some v \<Rightarrow> Some v),
       s_updatedAt := Some now\<rparr>"

definition updateWhereId :: "string \<Rightarrow> (mcpServer \<Rightarrow> mcpServer) \<Rightarrow> db \<Rightarrow> db" where
  "updateWhereId serverId f d =
     d\<lparr>mcpServers := map (\<lambda>s. if s_id s = serverId then f s else s) (mcpServers d)\<rparr>"

text \<open>
  The update statement of updateServer writes auth_secret_id when the payload holds it.
  A value that names no row of user_secrets violates the foreign key: the statement
  throws and changes nothing.
\<close>

definition updateServer ::
  "timestamp \<Rightarrow> string \<Rightarrow> string \<Rightarrow> mcpServerUpdate \<Rightarrow> db
     \<Rightarrow> (svc_error + mcpServer option) \<times> db" where
  "updateServer now userId serverId data d =
     (case getServer userId serverId d of
        None \<Rightarrow> (Inr None, d)
      | Some existing \<Rightarrow>
          (case su_authSecretId data of
             Some authSecretId \<Rightarrow>
               if secretExists authSecretId d
               then (let d' = updateWhereId serverId (setServer now data) d
                     in (Inr (find (\<lambda>s. s_id s = serverId) (mcpServers d')), d'))
               else (Inl DatabaseError, d)
           | None \<Rightarrow>
               (let d' = updateWhereId serverId (setServer now data) d
                in (Inr (find (\<lambda>s. s_id s = serverId) (mcpServers d')), d'))))"

definition deleteServer :: "string \<Rightarrow> string \<Rightarrow> db \<Rightarrow> bool \<times> db" where
  "deleteServer userId serverId d =
     (case getServer userId serverId d of
        None \<Rightarrow> (False, d)
      | Some existing \<Rightarrow>
          (True, d\<lparr>mcpServers := filter (\<lambda>s. s_id s \<noteq> serverId) (mcpServers d)\<rparr>))"

definition updateServerStatus ::
  "timestamp \<Rightarrow> timestamp \<Rightarrow> string \<Rightarrow> string \<Rightarrow> server_status \<Rightarrow> string option \<Rightarrow> db
     \<Rightarrow> mcpServer option \<times> db" where
  "updateServerStatus checkedNow updatedNow userId serverId status error d =
     (case getServer userId serverId d of
        None \<Rightarrow> (None, d)
      | Some existing \<Rightarrow>
          (let d' = updateWhereId serverId
                      (\<lambda>s. s\<lparr>s_status := status, s_lastChecked := Some checkedNow,
                              s_lastError := error, s_updatedAt := Some updatedNow\<rparr>) d
           in (find (\<lambda>s. s_id s = serverId) (mcpServers d'), d')))"

text \<open>
  The negation of a nullable boolean: null is falsy, so its negation is true. After the
  update the method reads updated.enabled for its log line, which throws when the row is
  not there.
\<close>

definition js_not :: "bool option \<Rightarrow> bool" where
  "js_not b = (case b of None \<Rightarrow> True | Some v \<Rightarrow> \<not> v)"

definition toggleServer ::
  "timestamp \<Rightarrow> string \<Rightarrow> string \<Rightarrow> db \<Rightarrow> (svc_error + mcpServer option) \<times> db" where
  "toggleServer now userId serverId d =
     (case getServer userId serverId d of
        None \<Rightarrow> (Inr None, d)
      | Some existing \<Rightarrow>
          (let d' = updateWhereId serverId
                      (\<lambda>s. s\<lparr>s_enabled := Some (js_not (s_enabled existing)),
                              s_updatedAt := Some now\<rparr>) d
           in case find (\<lambda>s. s_id s = serverId) (mcpServers d') of
                None \<Rightarrow> (Inl DatabaseError, d')
              | Some updated \<Rightarrow> (Inr (Some updated), d')))"

section \<open>The string operations the controllers use\<close>

text \<open>
  String.prototype.trim removes white space and line terminators from both ends. These
  are the code units of: tab, line feed, vertical tab, form feed, carriage return, space,
  no-break space (U+00A0), U+1680, U+2000 to U+200A, the line and paragraph separators
  (U+2028, U+2029), U+202F, U+205F, U+3000 and the byte order mark (U+FEFF).
\<close>

definition isWhiteSpace :: "nat \<Rightarrow> bool" where
  "isWhiteSpace c \<longleftrightarrow>
     c \<in> {9, 10, 11, 12, 13, 32, 160, 5760, 8232, 8233, 8239, 8287, 12288, 65279}
     \<or> (8192 \<le> c \<and> c \<le> 8202)"

definition trim :: "jsString \<Rightarrow> jsString" where
  "trim s = rev (dropWhile isWhiteSpace (rev (dropWhile isWhiteSpace s)))"

definition endsWith :: "jsString \<Rightarrow> jsString \<Rightarrow> bool" where
  "endsWith s searchString \<longleftrightarrow>
     length searchString \<le> length s \<and> drop (length s - length searchString) s = searchString"

text \<open>
  replace(/\/$/, ''): the pattern matches one slash (code unit 47) at the end of the
  input.
\<close>

definition replaceTrailingSlash :: "jsString \<Rightarrow> jsString" where
  "replaceTrailingSlash s = (if s \<noteq> [] \<and> last s = 47 then butlast s else s)"

text \<open>A number in a template literal: its decimal digits, with a minus sign below zero.\<close>

definition digitChar :: "nat \<Rightarrow> char" where
  "digitChar n = ''0123456789'' ! n"

fun showNat :: "nat \<Rightarrow> string" where
  "showNat n = (if n < 10 then [digitChar n] else showNat (n div 10) @ [digitChar (n mod 10)])"

declare showNat.simps [simp del]

definition showInt :: "int \<Rightarrow> string" where
  "showInt i = (if i < 0 then CHR ''-'' # showNat (nat (- i)) else showNat (nat i))"

section \<open>Controllers\<close>

text \<open>
  The envelope of a controller's answer: createSuccessResponse(data) or
  createErrorResponse(message, status). parseJsonBody either hands back the parsed body
  or the response to return. The row in the data is the one the service read back after
  its insert, which is undefined (None) when that select finds nothing.
\<close>

datatype 'a apiResponse = SuccessResponse 'a | ErrorResponse string nat

datatype ('a, 'b) bodyResult = BodyFailure "'a apiResponse" | BodyParsed 'b

record projectData =
  pd_project :: "project option"
  pd_appCount :: "nat option"
  pd_message :: "string option"

record createProjectBody =
  cpb_name :: "jsString option"
  cpb_description :: "jsString option"

definition ProjectsController_createProject ::
  "string \<Rightarrow> timestamp \<Rightarrow> timestamp \<Rightarrow> string \<Rightarrow> (projectData, createProjectBody) bodyResult
     \<Rightarrow> db \<Rightarrow> projectData apiResponse \<times> db" where
  "ProjectsController_createProject newId createdNow updatedNow userId bodyResult d =
     (case bodyResult of
        BodyFailure response \<Rightarrow> (response, d)
      | BodyParsed body \<Rightarrow>
          (case cpb_name body of
             None \<Rightarrow> (ErrorResponse ''Project name is required'' 400, d)
           | Some name \<Rightarrow>
               if trim name = [] then (ErrorResponse ''Project name is required'' 400, d)
               else
                 (case createProject newId createdNow updatedNow userId
                         \<lparr>pi_name = trim name,
                          pi_description = map_option trim (cpb_description body)\<rparr> d of
                    (Inl error, d') \<Rightarrow> (ErrorResponse ''Failed to create project'' 500, d')
                  | (Inr project, d') \<Rightarrow>
                      (SuccessResponse
                         \<lparr>pd_project = project, pd_appCount = Some 0,
                          pd_message = Some ''Project created successfully''\<rparr>, d'))))"

record mcpServerData =
  sd_server :: "mcpServer option"
  sd_message :: "string option"

record createServerBody =
  csb_name :: "jsString option"
  csb_url :: "jsString option"
  csb_transport :: "transport option"
  csb_authType :: "authType option"
  csb_authSecretId :: "string option"
  csb_description :: "jsString option"
  csb_enabled :: "bool option"

definition MCPServersController_createServer ::
  "string \<Rightarrow> timestamp \<Rightarrow> timestamp \<Rightarrow> string \<Rightarrow> (mcpServerData, createServerBody) bodyResult
     \<Rightarrow> db \<Rightarrow> mcpServerData apiResponse \<times> db" where
  "MCPServersController_createServer newId createdNow updatedNow userId bodyResult d =
     (case bodyResult of
        BodyFailure response \<Rightarrow> (response, d)
      | BodyParsed body \<Rightarrow>
          (case csb_name body of
             None \<Rightarrow> (ErrorResponse ''Server name is required'' 400, d)
           | Some name \<Rightarrow>
               if trim name = [] then (ErrorResponse ''Server name is required'' 400, d)
               else
                 (case csb_url body of
                    None \<Rightarrow> (ErrorResponse ''Server URL is required'' 400, d)
                  | Some url \<Rightarrow>
                      if trim url = [] then (ErrorResponse ''Server URL is required'' 400, d)
                      else
                        (case createServer newId createdNow updatedNow userId
                                \<lparr>si_name = trim name, si_url = trim url,
                                 si_transport = csb_transport body,
                                 si_authType = csb_authType body,
                                 si_authSecretId = csb_authSecretId body,
                                 si_description = map_option trim (csb_description body),
                                 si_enabled = csb_enabled body\<rparr> d of
                           (Inl error, d') \<Rightarrow>
                             (ErrorResponse ''Failed to create MCP server'' 500, d')
                         | (Inr server, d') \<Rightarrow>
                             (SuccessResponse
                                \<lparr>sd_server = server,
                                 sd_message = Some ''MCP server created successfully''\<rparr>,
                              d')))))"

subsection \<open>The connection test\<close>

text \<open>
  What fetch does with the probe URL: it resolves to a response, of which the controller
  reads ok and status, or it rejects with a thrown value, which is an Error carrying a
  message or something else.
\<close>

record response =
  r_ok :: bool
  r_status :: nat

datatype thrown = ErrorObject string | OtherValue

datatype fetchOutcome = Resolved response | Rejected thrown

record mcpServerTestData =
  td_success :: bool
  td_status :: server_status
  td_message :: string
  td_latencyMs :: "int option"

definition testUrl :: "jsString \<Rightarrow> jsString" where
  "testUrl url =
     (if endsWith url (str ''/health'') then url
      else replaceTrailingSlash url @ str ''/health'')"

definition MCPServersController_testConnection ::
  "(jsString \<Rightarrow> fetchOutcome) \<Rightarrow> timestamp \<Rightarrow> timestamp \<Rightarrow> timestamp \<Rightarrow> timestamp \<Rightarrow> string
     \<Rightarrow> string option \<Rightarrow> db \<Rightarrow> mcpServerTestData apiResponse \<times> db" where
  "MCPServersController_testConnection fetch startTime endTime checkedNow updatedNow userId
       serverIdParam d =
     (case serverIdParam of
        None \<Rightarrow> (ErrorResponse ''Server ID is required'' 400, d)
      | Some serverId \<Rightarrow>
          if serverId = [] then (ErrorResponse ''Server ID is required'' 400, d)
          else
            (case getServer userId serverId d of
               None \<Rightarrow> (ErrorResponse ''MCP server not found'' 404, d)
             | Some server \<Rightarrow>
                 (let latencyMs = endTime - startTime;
                      (status, message) =
                        (case fetch (testUrl (s_url server)) of
                           Resolved response \<Rightarrow>
                             if r_ok response
                             then (Connected,
                                   ''Connected successfully ('' @ showInt latencyMs @ ''ms)'')
                             else (ErrorStatus,
                                   ''Server returned status '' @ showNat (r_status response))
                         | Rejected fetchError \<Rightarrow>
                             (Disconnected,
                              case fetchError of
                                ErrorObject msg \<Rightarrow> msg
                              | OtherValue \<Rightarrow> ''Connection failed''));
                      (updated, d') =
                        updateServerStatus checkedNow updatedNow userId serverId status
                          (if status = ErrorStatus \<or> status = Disconnected then Some message
                           else None) d
                  in (SuccessResponse
                        \<lparr>td_success = (status = Connected), td_status = status,
                         td_message = message, td_latencyMs = Some latencyMs\<rparr>, d'))))"

section \<open>Document attachments\<close>

definition SUPPORTED_DOCUMENT_MIME_TYPES :: "string list" where
  "SUPPORTED_DOCUMENT_MIME_TYPES =
     [''text/plain'', ''text/markdown'', ''text/csv'', ''application/json'',
      ''application/pdf'', ''text/html'', ''text/css'', ''text/javascript'',
      ''application/typescript'', ''text/x-python'', ''text/x-java'', ''text/x-go'',
      ''text/x-rust'', ''text/x-c'', ''text/x-cpp'', ''text/yaml'', ''application/xml'']"

definition DOCUMENT_EXTENSION_MAP :: "(string \<times> string) list" where
  "DOCUMENT_EXTENSION_MAP =
     [(''.txt'', ''text/plain''), (''.md'', ''text/markdown''), (''.markdown'', ''text/markdown''),
      (''.csv'', ''text/csv''), (''.json'', ''application/json''), (''.pdf'', ''application/pdf''),
      (''.html'', ''text/html''), (''.htm'', ''text/html''), (''.css'', ''text/css''),
      (''.js'', ''text/javascript''), (''.mjs'', ''text/javascript''),
      (''.ts'', ''application/typescript''), (''.tsx'', ''application/typescript''),
      (''.jsx'', ''text/javascript''), (''.py'', ''text/x-python''), (''.java'', ''text/x-java''),
      (''.go'', ''text/x-go''), (''.rs'', ''text/x-rust''), (''.c'', ''text/x-c''),
      (''.h'', ''text/x-c''), (''.cpp'', ''text/x-cpp''), (''.hpp'', ''text/x-cpp''),
      (''.yaml'', ''text/yaml''), (''.yml'', ''text/yaml''), (''.xml'', ''application/xml'')]"

definition isSupportedDocumentType :: "string \<Rightarrow> bool" where
  "isSupportedDocumentType mimeType \<longleftrightarrow> mimeType \<in> set SUPPORTED_DOCUMENT_MIME_TYPES"

text \<open>
  toLowerCase on code units below 256: the letters A to Z and the accented capitals
  from 192 to 222 (all but the multiplication sign, 215) move up by 32.
\<close>

definition toLowerCaseChar :: "char \<Rightarrow> char" where
  "toLowerCaseChar c =
     (let n = (of_char c :: nat)
      in if (65 \<le> n \<and> n \<le> 90) \<or> (192 \<le> n \<and> n \<le> 222 \<and> n \<noteq> 215) then char_of (n + 32) else c)"

definition toLowerCase :: "string \<Rightarrow> string" where
  "toLowerCase s = map toLowerCaseChar s"

text \<open>
  match(/\.[^.]+$/)?.[0]: the first position from the left where a dot is followed by
  one or more characters that are not dots, up to the end of the input.
\<close>

fun matchExtension :: "string \<Rightarrow> string option" where
  "matchExtension [] = None"
| "matchExtension (c # cs) =
     (if c = CHR ''.'' \<and> cs \<noteq> [] \<and> CHR ''.'' \<notin> set cs then Some (c # cs)
      else matchExtension cs)"

definition getMimeTypeFromExtension :: "string \<Rightarrow> string option" where
  "getMimeTypeFromExtension filename =
     (case matchExtension (toLowerCase filename) of
        None \<Rightarrow> None
      | Some ext \<Rightarrow> map_of DOCUMENT_EXTENSION_MAP ext)"

definition isTextBasedDocument :: "string \<Rightarrow> bool" where
  "isTextBasedDocument mimeType \<longleftrightarrow> mimeType \<noteq> ''application/pdf''"

definition MAX_DOCUMENT_SIZE_BYTES :: nat where
  "MAX_DOCUMENT_SIZE_BYTES = 5 * 1024 * 1024"

definition MAX_DOCUMENTS_PER_MESSAGE :: nat where
  "MAX_DOCUMENTS_PER_MESSAGE = 3"

definition MAX_DOCUMENT_CHARS :: nat where
  "MAX_DOCUMENT_CHARS = 100000"

subsection \<open>useDocumentUpload\<close>

text \<open>
  A File as the hook reads it: its name, size and type, and what FileReader.readAsText
  delivers for it, the text or (None) an error event.
\<close>

record jsFile =
  f_name :: string
  f_size :: nat
  f_type :: string
  f_text :: "string option"

record documentAttachment =
  da_id :: string
  da_filename :: string
  da_mimeType :: string
  da_textContent :: string
  da_size :: nat
  da_lineCount :: nat
  da_truncated :: bool
  da_extension :: string

record uploadOptions =
  maxDocuments :: nat
  maxSizeBytes :: nat
  maxChars :: nat

definition defaultOptions :: uploadOptions where
  "defaultOptions = \<lparr>maxDocuments = MAX_DOCUMENTS_PER_MESSAGE,
                     maxSizeBytes = MAX_DOCUMENT_SIZE_BYTES,
                     maxChars = MAX_DOCUMENT_CHARS\<rparr>"

text \<open>
  (num / den).toFixed(1) for natural numbers with den a power of two, so that the quotient
  is exact: the nearest number of tenths, the larger one on a tie, printed with one
  decimal.
\<close>

definition toFixed1 :: "nat \<Rightarrow> nat \<Rightarrow> string" where
  "toFixed1 num den =
     (let n = (20 * num + den) div (2 * den)
      in showNat (n div 10) @ ''.'' @ showNat (n mod 10))"

definition extractPdfText :: "jsFile \<Rightarrow> string" where
  "extractPdfText f =
     ''[PDF Document: '' @ f_name f @ '']'' @ [CHR 0x0A, CHR 0x0A]
       @ ''Note: PDF text extraction requires additional processing. The document ''
       @ [CHR 0x22] @ f_name f @ [CHR 0x22] @ '' ('' @ toFixed1 (f_size f) 1024
       @ '' KB) has been attached for reference.''"

definition readTextContent :: "jsFile \<Rightarrow> string + string" where
  "readTextContent f =
     (case f_text f of
        None \<Rightarrow> Inl (''Failed to read file: '' @ f_name f)
      | Some content \<Rightarrow> Inr content)"

text \<open>
  The MIME type the hook settles on, and the text it extracts inside its try block;
  Inl carries the message of the error thrown there.
\<close>

definition resolveMimeType :: "jsFile \<Rightarrow> string option" where
  "resolveMimeType f =
     (if isSupportedDocumentType (f_type f) then Some (f_type f)
      else getMimeTypeFromExtension (f_name f))"

definition extractText :: "string \<Rightarrow> jsFile \<Rightarrow> string + string" where
  "extractText mimeType f =
     (if isTextBasedDocument mimeType then readTextContent f
      else if mimeType = ''application/pdf'' then Inr (extractPdfText f)
      else readTextContent f)"

definition truncationMarker :: string where
  "truncationMarker = [CHR 0x0A, CHR 0x0A] @ ''... [Content truncated]''"

text \<open>
  processDocumentFile returns the attachment, or shows an error message and returns null:
  Inl holds the message. The id it builds from the clock and a random number is an
  argument here.
\<close>

definition processDocumentFile :: "uploadOptions \<Rightarrow> string \<Rightarrow> jsFile \<Rightarrow> string + documentAttachment" where
  "processDocumentFile opts newId f =
     (if f_size f > maxSizeBytes opts
      then Inl (''File '' @ [CHR 0x22] @ f_name f @ [CHR 0x22] @ '' exceeds maximum size of ''
                 @ toFixed1 (maxSizeBytes opts) (1024 * 1024) @ ''MB'')
      else
        (case resolveMimeType f of
           None \<Rightarrow>
             Inl (''Unsupported file type: '' @ f_name f
                   @ ''. Supported: TXT, MD, CSV, JSON, PDF, HTML, CSS, JS, TS, PY, and more.'')
         | Some mimeType \<Rightarrow>
             (case extractText mimeType f of
                Inl message \<Rightarrow>
                  Inl (''Failed to process '' @ [CHR 0x22] @ f_name f @ [CHR 0x22] @ '': ''
                        @ message)
              | Inr extracted \<Rightarrow>
                  (let truncated = length extracted > maxChars opts;
                       textContent =
                         (if truncated then take (maxChars opts) extracted @ truncationMarker
                          else extracted)
                   in Inr \<lparr>da_id = newId, da_filename = f_name f, da_mimeType = mimeType,
                           da_textContent = textContent, da_size = f_size f,
                           da_lineCount = length (filter (\<lambda>c. c = CHR 0x0A) textContent) + 1,
                           da_truncated = truncated,
                           da_extension =
                             (case matchExtension (f_name f) of None \<Rightarrow> [] | Some e \<Rightarrow> e)\<rparr>))))"

text \<open>
  The three operations on the documents state. addDocuments tests the limit against
  documents, the list of the render that created the callback, and appends through the
  state updater, which receives prev, the list at the time the update is applied. Each
  file comes with the id its processing draws.
\<close>

definition validDocs :: "uploadOptions \<Rightarrow> (string \<times> jsFile) list \<Rightarrow> documentAttachment list" where
  "validDocs opts files =
     concat (map (\<lambda>(newId, f). case processDocumentFile opts newId f of
                                  Inl message \<Rightarrow> []
                                | Inr doc \<Rightarrow> [doc]) files)"

definition addDocuments ::
  "uploadOptions \<Rightarrow> documentAttachment list \<Rightarrow> (string \<times> jsFile) list
     \<Rightarrow> documentAttachment list \<Rightarrow> documentAttachment list" where
  "addDocuments opts documents files prev =
     (if length documents + length files > maxDocuments opts then prev
      else if length (validDocs opts files) > 0 then prev @ validDocs opts files
      else prev)"

definition removeDocument :: "string \<Rightarrow> documentAttachment list \<Rightarrow> documentAttachment list" where
  "removeDocument ident prev = filter (\<lambda>doc. da_id doc \<noteq> ident) prev"

definition clearDocuments :: "documentAttachment list \<Rightarrow> documentAttachment list" where
  "clearDocuments prev = []"

section \<open>Observations on the store\<close>

text \<open>
  The number of project_apps rows that link a project to an app, and the store after a
  series of addAppToProject calls by one user for one project and app, each with the id
  and the time it draws; a call that throws leaves the store it found.
\<close>

definition linkCount :: "string \<Rightarrow> string \<Rightarrow> db \<Rightarrow> nat" where
  "linkCount projectId appId d =
     length (filter (\<lambda>pa. pa_projectId pa = projectId \<and> pa_appId pa = appId) (projectApps d))"

fun addAppToProject_calls ::
  "(string \<times> timestamp) list \<Rightarrow> string \<Rightarrow> string \<Rightarrow> string \<Rightarrow> db \<Rightarrow> db" where
  "addAppToProject_calls [] userId projectId appId d = d"
| "addAppToProject_calls ((newId, now) # calls) userId projectId appId d =
     addAppToProject_calls calls userId projectId appId
       (snd (addAppToProject newId now userId projectId appId d))"

section \<open>Example data\<close>

text \<open>
  A small store used to instantiate the theorems below: alice owns project r1, app a1,
  server r1 and secret k1, project r1 links app a1; bob owns nothing.
\<close>

definition ex_project :: project where
  "ex_project = \<lparr>p_id = ''r1'', p_userId = ''alice'', p_name = str ''Demo'',
                  p_description = Some (str ''first''), p_status = Draft,
                  p_createdAt = Some 1000, p_updatedAt = Some 1000\<rparr>"

definition ex_server :: mcpServer where
  "ex_server = \<lparr>s_id = ''r1'', s_userId = ''alice'', s_name = str ''tools'',
                 s_url = str ''http://mcp.test/'', s_transport = Http, s_authType = AuthNone,
                 s_authSecretId = None, s_enabled = Some True, s_status = Unknown,
                 s_lastChecked = None, s_lastError = None, s_description = None,
                 s_createdAt = Some 1000, s_updatedAt = Some 1000\<rparr>"

definition ex_db :: db where
  "ex_db = \<lparr>projects = [ex_project],
             projectApps = [\<lparr>pa_id = ''l1'', pa_projectId = ''r1'', pa_appId = ''a1'',
                             pa_addedAt = Some 1000\<rparr>],
             apps = [\<lparr>a_id = ''a1'', a_userId = ''alice'', a_columns = ''App one''\<rparr>],
             mcpServers = [ex_server], userSecrets = [''k1'']\<rparr>"

text \<open>The same store with the server's enabled column holding NULL.\<close>

definition ex_null_db :: db where
  "ex_null_db = ex_db\<lparr>mcpServers := [ex_server\<lparr>s_enabled := None\<rparr>]\<rparr>"

text \<open>A store in which alice owns project r1 and bob owns the server with the same id.\<close>

definition ex_mixed_db :: db where
  "ex_mixed_db = ex_db\<lparr>mcpServers := [ex_server\<lparr>s_userId := ''bob''\<rparr>]\<rparr>"

section \<open>Ownership isolation\<close>

lemma find_None_iff_no_match: "find P xs = None \<longleftrightarrow> (\<forall>x \<in> set xs. \<not> P x)"
  by (induction xs) auto

lemma ownedProject_None:
  "(\<forall>p \<in> set (projects d). p_id p = r \<longrightarrow> p_userId p \<noteq> u) \<Longrightarrow> ownedProject u r d = None"
  by (auto simp: ownedProject_def find_None_iff_no_match)

lemma getServer_None:
  "(\<forall>s \<in> set (mcpServers d). s_id s = r \<longrightarrow> s_userId s \<noteq> u) \<Longrightarrow> getServer u r d = None"
  by (auto simp: getServer_def find_None_iff_no_match)

lemma ownedProject_Some_iff:
  "ownedProject u r d \<noteq> None \<longleftrightarrow> (\<exists>p \<in> set (projects d). p_id p = r \<and> p_userId p = u)"
  by (auto simp: ownedProject_def find_None_iff_no_match)

lemma getServer_Some_iff:
  "getServer u r d \<noteq> None \<longleftrightarrow> (\<exists>s \<in> set (mcpServers d). s_id s = r \<and> s_userId s = u)"
  by (auto simp: getServer_def find_None_iff_no_match)

lemma getServer_SomeD:
  "getServer u r d = Some s \<Longrightarrow> s \<in> set (mcpServers d) \<and> s_id s = r \<and> s_userId s = u"
  by (auto simp: getServer_def find_Some_iff)

text \<open>
  C1. Let no project with id r be owned by u: either the table has no row with id r, or
  each such row has another userId. Then every scoped operation on the project answers
  with its not-found value (null, false, the empty list) and leaves the store as it was,
  whatever else the store holds. The same holds of every scoped operation on a server
  when no server with id r is owned by u. The answer is the same constant whether the
  row is missing or belongs to someone else, so a caller cannot tell the two apart.
\<close>

theorem ownership_isolation:
  "((\<forall>p \<in> set (projects d). p_id p = r \<longrightarrow> p_userId p \<noteq> u) \<longrightarrow>
      getProject u r d = None
      \<and> updateProject now u r pdata d = (None, d)
      \<and> deleteProject u r d = (False, d)
      \<and> getProjectApps u r d = []
      \<and> addAppToProject newId now u r appId d = (Inr False, d)
      \<and> removeAppFromProject u r appId d = (False, d))
   \<and> ((\<forall>s \<in> set (mcpServers d). s_id s = r \<longrightarrow> s_userId s \<noteq> u) \<longrightarrow>
      getServer u r d = None
      \<and> updateServer now u r sdata d = (Inr None, d)
      \<and> deleteServer u r d = (False, d)
      \<and> toggleServer now u r d = (Inr None, d)
      \<and> updateServerStatus now now' u r st err d = (None, d))"
proof (intro conjI impI)
  assume "\<forall>p \<in> set (projects d). p_id p = r \<longrightarrow> p_userId p \<noteq> u"
  then have n: "ownedProject u r d = None" by (rule ownedProject_None)
  show "getProject u r d = None" by (simp add: getProject_def n)
  show "updateProject now u r pdata d = (None, d)" by (simp add: updateProject_def n)
  show "deleteProject u r d = (False, d)" by (simp add: deleteProject_def n)
  show "getProjectApps u r d = []" by (simp add: getProjectApps_def n)
  show "addAppToProject newId now u r appId d = (Inr False, d)"
    by (simp add: addAppToProject_def n)
  show "removeAppFromProject u r appId d = (False, d)"
    by (simp add: removeAppFromProject_def n)
next
  assume "\<forall>s \<in> set (mcpServers d). s_id s = r \<longrightarrow> s_userId s \<noteq> u"
  then have n: "getServer u r d = None" by (rule getServer_None)
  show "getServer u r d = None" by (rule n)
  show "updateServer now u r sdata d = (Inr None, d)" by (simp add: updateServer_def n)
  show "deleteServer u r d = (False, d)" by (simp add: deleteServer_def n)
  show "toggleServer now u r d = (Inr None, d)" by (simp add: toggleServer_def n)
  show "updateServerStatus now now' u r st err d = (None, d)"
    by (simp add: updateServerStatus_def n)
qed

text \<open>
  In the store of the witness alice owns project r1 and bob owns the server with the same
  id r1: bob gets the not-found answers for the project although he owns a server r1, and
  alice gets them for the server although she owns a project r1; each gets the row that
  is theirs.
\<close>

theorem ownership_isolation_witness:
  "getProject ''bob'' ''r1'' ex_mixed_db = None
   \<and> deleteProject ''bob'' ''r1'' ex_mixed_db = (False, ex_mixed_db)
   \<and> getProjectApps ''bob'' ''r1'' ex_mixed_db = []
   \<and> getServer ''alice'' ''r1'' ex_mixed_db = None
   \<and> deleteServer ''alice'' ''r1'' ex_mixed_db = (False, ex_mixed_db)
   \<and> toggleServer 5 ''alice'' ''r1'' ex_mixed_db = (Inr None, ex_mixed_db)
   \<and> getProject ''alice'' ''r1'' ex_mixed_db = Some (ex_project, 1)
   \<and> getServer ''bob'' ''r1'' ex_mixed_db = Some (ex_server\<lparr>s_userId := ''bob''\<rparr>)"
proof -
  have h1: "\<forall>p \<in> set (projects ex_mixed_db). p_id p = ''r1'' \<longrightarrow> p_userId p \<noteq> ''bob''"
    by (simp add: ex_mixed_db_def ex_db_def ex_project_def)
  have h2: "\<forall>s \<in> set (mcpServers ex_mixed_db). s_id s = ''r1'' \<longrightarrow> s_userId s \<noteq> ''alice''"
    by (simp add: ex_mixed_db_def ex_db_def ex_server_def)
  have owner: "getProject ''alice'' ''r1'' ex_mixed_db = Some (ex_project, 1)"
    "getServer ''bob'' ''r1'' ex_mixed_db = Some (ex_server\<lparr>s_userId := ''bob''\<rparr>)"
    by (simp_all add: getProject_def ownedProject_def appCount_def getServer_def
        ex_mixed_db_def ex_db_def ex_project_def ex_server_def)
  from ownership_isolation[where d = ex_mixed_db and r = "''r1''" and u = "''bob''"] h1
  have 1: "getProject ''bob'' ''r1'' ex_mixed_db = None
      \<and> deleteProject ''bob'' ''r1'' ex_mixed_db = (False, ex_mixed_db)
      \<and> getProjectApps ''bob'' ''r1'' ex_mixed_db = []"
    by blast
  from ownership_isolation[where d = ex_mixed_db and r = "''r1''" and u = "''alice''" and now = 5] h2
  have 2: "getServer ''alice'' ''r1'' ex_mixed_db = None
      \<and> deleteServer ''alice'' ''r1'' ex_mixed_db = (False, ex_mixed_db)
      \<and> toggleServer 5 ''alice'' ''r1'' ex_mixed_db = (Inr None, ex_mixed_db)"
    by blast
  from 1 2 owner show ?thesis by blast
qed

section \<open>The probe URL\<close>

lemma endsWith_iff_append: "endsWith s t \<longleftrightarrow> (\<exists>pre. s = pre @ t)"
proof
  assume "endsWith s t"
  then have "s = take (length s - length t) s @ t"
    by (metis append_take_drop_id endsWith_def)
  then show "\<exists>pre. s = pre @ t" ..
next
  assume "\<exists>pre. s = pre @ t"
  then show "endsWith s t" by (auto simp: endsWith_def)
qed

lemma str_slash: "str ''/'' = [47]"
  by (simp add: str_def)

lemma last_str_health: "last (q @ str ''/health'') = 104"
  by (simp add: str_def)

lemma replaceTrailingSlash_append: "replaceTrailingSlash (pre @ str ''/'') = pre"
  by (simp add: replaceTrailingSlash_def str_slash)

lemma replaceTrailingSlash_other:
  "(\<nexists>pre. s = pre @ str ''/'') \<Longrightarrow> replaceTrailingSlash s = s"
  unfolding replaceTrailingSlash_def str_slash
  by (metis append_butlast_last_id)

text \<open>
  C3. The probe URL is a function of the configured url alone. A url that ends with
  /health is probed as it is. Otherwise, when the url ends with a slash, that one slash is
  removed and /health appended; when it does not, /health is appended to the url itself.
\<close>

theorem testUrl_resolution:
  "(\<forall>pre. url = pre @ str ''/health'' \<longrightarrow> testUrl url = url)
   \<and> (\<forall>pre. url = pre @ str ''/'' \<longrightarrow> testUrl url = pre @ str ''/health'')
   \<and> ((\<nexists>pre. url = pre @ str ''/health'') \<and> (\<nexists>pre. url = pre @ str ''/'')
        \<longrightarrow> testUrl url = url @ str ''/health'')"
proof (intro conjI allI impI)
  fix pre assume "url = pre @ str ''/health''"
  then show "testUrl url = url"
    by (auto simp: testUrl_def endsWith_iff_append)
next
  fix pre assume u: "url = pre @ str ''/''"
  have "\<not> endsWith url (str ''/health'')"
  proof
    assume "endsWith url (str ''/health'')"
    then obtain q where "url = q @ str ''/health''"
      by (auto simp: endsWith_iff_append)
    with u have "last (pre @ str ''/'') = last (q @ str ''/health'')" by simp
    then show False by (simp add: last_str_health str_slash)
  qed
  with u show "testUrl url = pre @ str ''/health''"
    by (simp add: testUrl_def replaceTrailingSlash_append)
next
  assume "(\<nexists>pre. url = pre @ str ''/health'') \<and> (\<nexists>pre. url = pre @ str ''/'')"
  then show "testUrl url = url @ str ''/health''"
    by (simp add: testUrl_def endsWith_iff_append replaceTrailingSlash_other)
qed

theorem testUrl_resolution_witness:
  "testUrl (str ''http://mcp.test/health'') = str ''http://mcp.test/health''
   \<and> testUrl (str ''http://mcp.test/'') = str ''http://mcp.test/health''
   \<and> testUrl (str ''http://mcp.test//'') = str ''http://mcp.test//health''"
proof -
  have a: "str ''http://mcp.test/health'' = str ''http://mcp.test'' @ str ''/health''"
    by (simp add: str_def)
  have b: "str ''http://mcp.test/'' = str ''http://mcp.test'' @ str ''/''"
    by (simp add: str_def)
  have c: "str ''http://mcp.test//'' = str ''http://mcp.test/'' @ str ''/''"
    by (simp add: str_def)
  have d: "str ''http://mcp.test//health'' = str ''http://mcp.test/'' @ str ''/health''"
    by (simp add: str_def)
  from testUrl_resolution[of "str ''http://mcp.test/health''"] a
  have 1: "testUrl (str ''http://mcp.test/health'') = str ''http://mcp.test/health''" by blast
  from testUrl_resolution[of "str ''http://mcp.test/''"] b
  have "testUrl (str ''http://mcp.test/'') = str ''http://mcp.test'' @ str ''/health''" by blast
  with a have 2: "testUrl (str ''http://mcp.test/'') = str ''http://mcp.test/health''"
    by (simp only:)
  from testUrl_resolution[of "str ''http://mcp.test//''"] c
  have "testUrl (str ''http://mcp.test//'') = str ''http://mcp.test/'' @ str ''/health''" by blast
  with d have 3: "testUrl (str ''http://mcp.test//'') = str ''http://mcp.test//health''"
    by (simp only:)
  from 1 2 3 show ?thesis by blast
qed

section \<open>The connection test\<close>

text \<open>
  C2. For a server the caller owns, the test answers with a success envelope whose data
  classify the probe: a response with ok set gives connected and a message holding the
  elapsed milliseconds; a response without ok gives error and a message holding the status
  code; a rejected fetch gives disconnected and the message of the thrown Error (the text
  Connection failed when the thrown value is not an Error). The success flag is true
  exactly when the status is connected, and latencyMs is the elapsed time in each case.
\<close>

theorem testConnection_classification:
  assumes "serverId \<noteq> []" and "getServer u serverId d = Some server"
  shows "(\<forall>r. fetch (testUrl (s_url server)) = Resolved r \<and> r_ok r \<longrightarrow>
            fst (MCPServersController_testConnection fetch t0 t1 c n u (Some serverId) d) =
              SuccessResponse
                \<lparr>td_success = True, td_status = Connected,
                 td_message = ''Connected successfully ('' @ showInt (t1 - t0) @ ''ms)'',
                 td_latencyMs = Some (t1 - t0)\<rparr>)
    \<and> (\<forall>r. fetch (testUrl (s_url server)) = Resolved r \<and> \<not> r_ok r \<longrightarrow>
            fst (MCPServersController_testConnection fetch t0 t1 c n u (Some serverId) d) =
              SuccessResponse
                \<lparr>td_success = False, td_status = ErrorStatus,
                 td_message = ''Server returned status '' @ showNat (r_status r),
                 td_latencyMs = Some (t1 - t0)\<rparr>)
    \<and> (\<forall>msg. fetch (testUrl (s_url server)) = Rejected (ErrorObject msg) \<longrightarrow>
            fst (MCPServersController_testConnection fetch t0 t1 c n u (Some serverId) d) =
              SuccessResponse
                \<lparr>td_success = False, td_status = Disconnected, td_message = msg,
                 td_latencyMs = Some (t1 - t0)\<rparr>)
    \<and> (fetch (testUrl (s_url server)) = Rejected OtherValue \<longrightarrow>
            fst (MCPServersController_testConnection fetch t0 t1 c n u (Some serverId) d) =
              SuccessResponse
                \<lparr>td_success = False, td_status = Disconnected,
                 td_message = ''Connection failed'', td_latencyMs = Some (t1 - t0)\<rparr>)
    \<and> (\<exists>data. fst (MCPServersController_testConnection fetch t0 t1 c n u (Some serverId) d) =
                 SuccessResponse data
               \<and> (td_success data \<longleftrightarrow> td_status data = Connected))"
  using assms
  by (cases "fetch (testUrl (s_url server))")
    (auto simp: MCPServersController_testConnection_def Let_def
      split: prod.splits thrown.splits)

theorem testConnection_classification_witness:
  "fst (MCPServersController_testConnection (\<lambda>url. Resolved \<lparr>r_ok = True, r_status = 200\<rparr>)
          1000 1042 1050 1051 ''alice'' (Some ''r1'') ex_db) =
     SuccessResponse \<lparr>td_success = True, td_status = Connected,
                      td_message = ''Connected successfully (42ms)'', td_latencyMs = Some 42\<rparr>
   \<and> fst (MCPServersController_testConnection (\<lambda>url. Resolved \<lparr>r_ok = False, r_status = 503\<rparr>)
          1000 1042 1050 1051 ''alice'' (Some ''r1'') ex_db) =
     SuccessResponse \<lparr>td_success = False, td_status = ErrorStatus,
                      td_message = ''Server returned status 503'', td_latencyMs = Some 42\<rparr>
   \<and> fst (MCPServersController_testConnection (\<lambda>url. Rejected (ErrorObject ''The operation timed out''))
          1000 6001 6002 6003 ''alice'' (Some ''r1'') ex_db) =
     SuccessResponse \<lparr>td_success = False, td_status = Disconnected,
                      td_message = ''The operation timed out'', td_latencyMs = Some 5001\<rparr>"
proof -
  have n: "''r1'' \<noteq> []" by simp
  have g: "getServer ''alice'' ''r1'' ex_db = Some ex_server"
    by (simp add: getServer_def ex_db_def ex_server_def)
  note T = testConnection_classification[OF n g]
  have 1: "showInt (1042 - 1000) = ''42''" "showNat 503 = ''503''"
    by (simp_all add: showInt_def showNat.simps digitChar_def)
  from T[of "\<lambda>url. Resolved \<lparr>r_ok = True, r_status = 200\<rparr>" 1000 1042 1050 1051]
       T[of "\<lambda>url. Resolved \<lparr>r_ok = False, r_status = 503\<rparr>" 1000 1042 1050 1051]
       T[of "\<lambda>url. Rejected (ErrorObject ''The operation timed out'')" 1000 6001 6002 6003]
       1
  show ?thesis by simp
qed

section \<open>Creating with trimmed strings\<close>

lemma find_append_fresh:
  "(\<forall>x \<in> set xs. \<not> P x) \<Longrightarrow> P y \<Longrightarrow> find P (xs @ [y]) = Some y"
  by (induction xs) auto

lemma dropWhile_all_iff: "(\<forall>x \<in> set (dropWhile P xs). P x) \<longleftrightarrow> dropWhile P xs = []"
proof
  assume a: "\<forall>x \<in> set (dropWhile P xs). P x"
  show "dropWhile P xs = []"
  proof (rule ccontr)
    assume n: "dropWhile P xs \<noteq> []"
    then have "\<not> P (hd (dropWhile P xs))" by (rule hd_dropWhile)
    moreover from n have "hd (dropWhile P xs) \<in> set (dropWhile P xs)" by simp
    ultimately show False using a by blast
  qed
qed (auto dest: set_dropWhileD)

lemma trim_empty_iff: "trim s = [] \<longleftrightarrow> (\<forall>c \<in> set s. isWhiteSpace c)"
proof -
  have "trim s = [] \<longleftrightarrow> (\<forall>x \<in> set (dropWhile isWhiteSpace s). isWhiteSpace x)"
    by (simp add: trim_def)
  also have "\<dots> \<longleftrightarrow> dropWhile isWhiteSpace s = []"
    by (rule dropWhile_all_iff)
  also have "\<dots> \<longleftrightarrow> (\<forall>c \<in> set s. isWhiteSpace c)"
    by simp
  finally show ?thesis .
qed

lemma trim_decomposition:
  "\<exists>l r. s = l @ trim s @ r \<and> (\<forall>c \<in> set l. isWhiteSpace c) \<and> (\<forall>c \<in> set r. isWhiteSpace c)"
proof -
  let ?l = "takeWhile isWhiteSpace s"
  let ?m = "dropWhile isWhiteSpace s"
  let ?r = "rev (takeWhile isWhiteSpace (rev ?m))"
  have "rev ?m = takeWhile isWhiteSpace (rev ?m) @ dropWhile isWhiteSpace (rev ?m)"
    by simp
  then have "?m = trim s @ ?r"
    by (metis rev_append rev_rev_ident trim_def)
  then have "s = ?l @ trim s @ ?r"
    by (metis takeWhile_dropWhile_id)
  moreover have "\<forall>c \<in> set ?l. isWhiteSpace c"
    by (auto dest: set_takeWhileD)
  moreover have "\<forall>c \<in> set ?r. isWhiteSpace c"
    by (auto dest: set_takeWhileD)
  ultimately show ?thesis by blast
qed

lemma trim_ends:
  "trim s \<noteq> [] \<Longrightarrow> \<not> isWhiteSpace (hd (trim s)) \<and> \<not> isWhiteSpace (last (trim s))"
proof -
  assume ne: "trim s \<noteq> []"
  let ?m = "dropWhile isWhiteSpace s"
  let ?k = "dropWhile isWhiteSpace (rev ?m)"
  have k: "?k \<noteq> []" using ne by (simp add: trim_def)
  then have a: "\<not> isWhiteSpace (hd ?k)" by (rule hd_dropWhile)
  have "last (trim s) = hd ?k" using k by (simp add: trim_def last_rev)
  with a have l: "\<not> isWhiteSpace (last (trim s))" by simp
  have m: "?m \<noteq> []"
  proof
    assume "?m = []"
    then have "rev ?m = []" by (simp only: rev.simps)
    then have "?k = []" by (simp only: dropWhile.simps)
    with k show False by blast
  qed
  then have hm: "\<not> isWhiteSpace (hd ?m)" by (rule hd_dropWhile)
  obtain r where "?m = trim s @ r"
    by (metis rev_append rev_rev_ident takeWhile_dropWhile_id trim_def)
  with ne have "hd (trim s) = hd ?m" by (metis hd_append2)
  with hm l show ?thesis by simp
qed

lemma createProject_fresh:
  assumes "newId \<notin> set (map p_id (projects d))"
  shows "createProject newId t1 t2 u \<lparr>pi_name = n, pi_description = ds\<rparr> d =
           (Inr (Some \<lparr>p_id = newId, p_userId = u, p_name = n, p_description = ds,
                        p_status = Draft, p_createdAt = Some t1, p_updatedAt = Some t2\<rparr>),
            d\<lparr>projects := projects d @
                 [\<lparr>p_id = newId, p_userId = u, p_name = n, p_description = ds,
                   p_status = Draft, p_createdAt = Some t1, p_updatedAt = Some t2\<rparr>]\<rparr>)"
proof -
  from assms have f: "\<forall>x \<in> set (projects d). \<not> p_id x = newId" by auto
  from assms show ?thesis
    by (simp add: createProject_def insert_project_def Let_def find_append_fresh[OF f])
qed

lemma createProject_taken:
  "newId \<in> set (map p_id (projects d)) \<Longrightarrow>
     createProject newId t1 t2 u data d = (Inl DatabaseError, d)"
  by (simp add: createProject_def insert_project_def Let_def)

lemma createServer_stored:
  assumes "newId \<notin> set (map s_id (mcpServers d))" and "secretExists (si_authSecretId data) d"
  shows "\<exists>row. createServer newId t1 t2 u data d =
                 (Inr (Some row), d\<lparr>mcpServers := mcpServers d @ [row]\<rparr>)
           \<and> s_id row = newId \<and> s_userId row = u
           \<and> s_name row = si_name data \<and> s_url row = si_url data
           \<and> s_description row = si_description data
           \<and> s_authSecretId row = si_authSecretId data"
proof -
  from assms(1) have f: "\<forall>x \<in> set (mcpServers d). \<not> s_id x = newId" by auto
  from assms show ?thesis
    by (simp add: createServer_def insert_mcpServer_def Let_def find_append_fresh[OF f])
qed

lemma createServer_refused:
  "newId \<in> set (map s_id (mcpServers d)) \<or> \<not> secretExists (si_authSecretId data) d \<Longrightarrow>
     createServer newId t1 t2 u data d = (Inl DatabaseError, d)"
  by (auto simp: createServer_def insert_mcpServer_def Let_def)

text \<open>
  C9. Both create handlers answer 400 and leave the store untouched when a required
  string (the project's name; the server's name, then its url) is missing or holds
  nothing but white space. Otherwise the service is called with the name (and url)
  trimmed and the description trimmed when one was sent. With an id that is not in use
  (and, for a server, a secret reference that is absent or names a stored secret) the
  handler answers with the stored row, which carries these trimmed strings; when the
  insert violates a constraint it answers 500 and stores nothing. In every case the
  store afterwards is the store before, or the store before with that one trimmed row.
\<close>

theorem create_stores_trimmed:
  "((cpb_name body = None \<or> (\<exists>name. cpb_name body = Some name \<and> (\<forall>c \<in> set name. isWhiteSpace c)))
      \<longrightarrow> ProjectsController_createProject newId t1 t2 u (BodyParsed body) d =
            (ErrorResponse ''Project name is required'' 400, d))
   \<and> (\<forall>name. cpb_name body = Some name \<and> (\<exists>c \<in> set name. \<not> isWhiteSpace c)
          \<and> newId \<notin> set (map p_id (projects d))
      \<longrightarrow> ProjectsController_createProject newId t1 t2 u (BodyParsed body) d =
            (SuccessResponse
               \<lparr>pd_project =
                  Some \<lparr>p_id = newId, p_userId = u, p_name = trim name,
                        p_description = map_option trim (cpb_description body),
                        p_status = Draft, p_createdAt = Some t1, p_updatedAt = Some t2\<rparr>,
                pd_appCount = Some 0, pd_message = Some ''Project created successfully''\<rparr>,
             d\<lparr>projects := projects d @
                  [\<lparr>p_id = newId, p_userId = u, p_name = trim name,
                    p_description = map_option trim (cpb_description body), p_status = Draft,
                    p_createdAt = Some t1, p_updatedAt = Some t2\<rparr>]\<rparr>))
   \<and> (snd (ProjectsController_createProject newId t1 t2 u (BodyParsed body) d) = d
        \<or> (\<exists>name. cpb_name body = Some name
              \<and> snd (ProjectsController_createProject newId t1 t2 u (BodyParsed body) d) =
                  d\<lparr>projects := projects d @
                       [\<lparr>p_id = newId, p_userId = u, p_name = trim name,
                         p_description = map_option trim (cpb_description body),
                         p_status = Draft, p_createdAt = Some t1, p_updatedAt = Some t2\<rparr>]\<rparr>))
   \<and> ((csb_name sbody = None \<or> (\<exists>name. csb_name sbody = Some name \<and> (\<forall>c \<in> set name. isWhiteSpace c)))
      \<longrightarrow> MCPServersController_createServer newId t1 t2 u (BodyParsed sbody) d =
            (ErrorResponse ''Server name is required'' 400, d))
   \<and> (\<forall>name. csb_name sbody = Some name \<and> (\<exists>c \<in> set name. \<not> isWhiteSpace c)
          \<and> (csb_url sbody = None \<or> (\<exists>url. csb_url sbody = Some url \<and> (\<forall>c \<in> set url. isWhiteSpace c)))
      \<longrightarrow> MCPServersController_createServer newId t1 t2 u (BodyParsed sbody) d =
            (ErrorResponse ''Server URL is required'' 400, d))
   \<and> (\<forall>name url. csb_name sbody = Some name \<and> (\<exists>c \<in> set name. \<not> isWhiteSpace c)
          \<and> csb_url sbody = Some url \<and> (\<exists>c \<in> set url. \<not> isWhiteSpace c)
          \<and> newId \<notin> set (map s_id (mcpServers d))
          \<and> secretExists (csb_authSecretId sbody) d
      \<longrightarrow> (\<exists>row. MCPServersController_createServer newId t1 t2 u (BodyParsed sbody) d =
                  (SuccessResponse
                     \<lparr>sd_server = Some row, sd_message = Some ''MCP server created successfully''\<rparr>,
                   d\<lparr>mcpServers := mcpServers d @ [row]\<rparr>)
                \<and> s_id row = newId \<and> s_userId row = u
                \<and> s_name row = trim name \<and> s_url row = trim url
                \<and> s_description row = map_option trim (csb_description sbody)))
   \<and> (\<forall>name url. csb_name sbody = Some name \<and> (\<exists>c \<in> set name. \<not> isWhiteSpace c)
          \<and> csb_url sbody = Some url \<and> (\<exists>c \<in> set url. \<not> isWhiteSpace c)
          \<and> (newId \<in> set (map s_id (mcpServers d)) \<or> \<not> secretExists (csb_authSecretId sbody) d)
      \<longrightarrow> MCPServersController_createServer newId t1 t2 u (BodyParsed sbody) d =
            (ErrorResponse ''Failed to create MCP server'' 500, d))
   \<and> (snd (MCPServersController_createServer newId t1 t2 u (BodyParsed sbody) d) = d
        \<or> (\<exists>name url row. csb_name sbody = Some name \<and> csb_url sbody = Some url
              \<and> snd (MCPServersController_createServer newId t1 t2 u (BodyParsed sbody) d) =
                  d\<lparr>mcpServers := mcpServers d @ [row]\<rparr>
              \<and> s_name row = trim name \<and> s_url row = trim url
              \<and> s_description row = map_option trim (csb_description sbody)))"
proof -
  let ?P = "ProjectsController_createProject newId t1 t2 u (BodyParsed body) d"
  let ?S = "MCPServersController_createServer newId t1 t2 u (BodyParsed sbody) d"
  let ?prow = "\<lambda>name. \<lparr>p_id = newId, p_userId = u, p_name = trim name,
                 p_description = map_option trim (cpb_description body), p_status = Draft,
                 p_createdAt = Some t1, p_updatedAt = Some t2\<rparr>"
  let ?sdata = "\<lambda>name url. \<lparr>si_name = trim name, si_url = trim url,
                 si_transport = csb_transport sbody, si_authType = csb_authType sbody,
                 si_authSecretId = csb_authSecretId sbody,
                 si_description = map_option trim (csb_description sbody),
                 si_enabled = csb_enabled sbody\<rparr>"
  have p400: "?P = (ErrorResponse ''Project name is required'' 400, d)"
    if "cpb_name body = None \<or> (\<exists>name. cpb_name body = Some name \<and> (\<forall>c \<in> set name. isWhiteSpace c))"
    using that by (auto simp: ProjectsController_createProject_def trim_empty_iff)
  have pok: "?P = (SuccessResponse \<lparr>pd_project = Some (?prow name), pd_appCount = Some 0,
                     pd_message = Some ''Project created successfully''\<rparr>,
                   d\<lparr>projects := projects d @ [?prow name]\<rparr>)"
    if "cpb_name body = Some name" "\<exists>c \<in> set name. \<not> isWhiteSpace c"
      "newId \<notin> set (map p_id (projects d))" for name
  proof -
    from that(2) have "trim name \<noteq> []" by (auto simp: trim_empty_iff)
    with that(1) createProject_fresh[OF that(3), of t1 t2 u "trim name"
        "map_option trim (cpb_description body)"]
    show ?thesis by (simp add: ProjectsController_createProject_def)
  qed
  have p500: "?P = (ErrorResponse ''Failed to create project'' 500, d)"
    if "cpb_name body = Some name" "\<exists>c \<in> set name. \<not> isWhiteSpace c"
      "newId \<in> set (map p_id (projects d))" for name
  proof -
    from that(2) have "trim name \<noteq> []" by (auto simp: trim_empty_iff)
    with that(1) createProject_taken[OF that(3)]
    show ?thesis by (simp add: ProjectsController_createProject_def)
  qed
  have ptotal: "snd ?P = d \<or> (\<exists>name. cpb_name body = Some name
                  \<and> snd ?P = d\<lparr>projects := projects d @ [?prow name]\<rparr>)"
  proof (cases "cpb_name body")
    case None
    with p400 show ?thesis by simp
  next
    case (Some name)
    show ?thesis
    proof (cases "\<forall>c \<in> set name. isWhiteSpace c")
      case True
      with Some p400 show ?thesis by simp
    next
      case False
      then have ne: "\<exists>c \<in> set name. \<not> isWhiteSpace c" by simp
      show ?thesis
      proof (cases "newId \<in> set (map p_id (projects d))")
        case True
        from p500[OF Some ne True] show ?thesis by simp
      next
        case False
        from pok[OF Some ne False] Some show ?thesis by simp
      qed
    qed
  qed
  have s400n: "?S = (ErrorResponse ''Server name is required'' 400, d)"
    if "csb_name sbody = None \<or> (\<exists>name. csb_name sbody = Some name \<and> (\<forall>c \<in> set name. isWhiteSpace c))"
    using that by (auto simp: MCPServersController_createServer_def trim_empty_iff)
  have s400u: "?S = (ErrorResponse ''Server URL is required'' 400, d)"
    if "csb_name sbody = Some name" "\<exists>c \<in> set name. \<not> isWhiteSpace c"
      "csb_url sbody = None \<or> (\<exists>url. csb_url sbody = Some url \<and> (\<forall>c \<in> set url. isWhiteSpace c))"
    for name
  proof -
    from that(2) have "trim name \<noteq> []" by (auto simp: trim_empty_iff)
    with that(1,3) show ?thesis
      by (auto simp: MCPServersController_createServer_def trim_empty_iff)
  qed
  have unfold: "?S = (case createServer newId t1 t2 u (?sdata name url) d of
                        (Inl error, d') \<Rightarrow> (ErrorResponse ''Failed to create MCP server'' 500, d')
                      | (Inr server, d') \<Rightarrow>
                          (SuccessResponse \<lparr>sd_server = server,
                             sd_message = Some ''MCP server created successfully''\<rparr>, d'))"
    if "csb_name sbody = Some name" "\<exists>c \<in> set name. \<not> isWhiteSpace c"
      "csb_url sbody = Some url" "\<exists>c \<in> set url. \<not> isWhiteSpace c" for name url
  proof -
    from that(2,4) have "trim name \<noteq> []" "trim url \<noteq> []" by (auto simp: trim_empty_iff)
    with that(1,3) show ?thesis by (simp add: MCPServersController_createServer_def)
  qed
  have sok: "\<exists>row. ?S = (SuccessResponse \<lparr>sd_server = Some row,
                            sd_message = Some ''MCP server created successfully''\<rparr>,
                          d\<lparr>mcpServers := mcpServers d @ [row]\<rparr>)
               \<and> s_id row = newId \<and> s_userId row = u
               \<and> s_name row = trim name \<and> s_url row = trim url
               \<and> s_description row = map_option trim (csb_description sbody)"
    if "csb_name sbody = Some name" "\<exists>c \<in> set name. \<not> isWhiteSpace c"
      "csb_url sbody = Some url" "\<exists>c \<in> set url. \<not> isWhiteSpace c"
      "newId \<notin> set (map s_id (mcpServers d))" "secretExists (csb_authSecretId sbody) d"
    for name url
  proof -
    from that(6) have "secretExists (si_authSecretId (?sdata name url)) d" by simp
    from createServer_stored[OF that(5) this, of t1 t2 u]
    obtain row where "createServer newId t1 t2 u (?sdata name url) d =
        (Inr (Some row), d\<lparr>mcpServers := mcpServers d @ [row]\<rparr>)"
      and "s_id row = newId" "s_userId row = u" "s_name row = trim name"
        "s_url row = trim url" "s_description row = map_option trim (csb_description sbody)"
      by auto
    with unfold[OF that(1-4)] show ?thesis by simp
  qed
  have s500: "?S = (ErrorResponse ''Failed to create MCP server'' 500, d)"
    if "csb_name sbody = Some name" "\<exists>c \<in> set name. \<not> isWhiteSpace c"
      "csb_url sbody = Some url" "\<exists>c \<in> set url. \<not> isWhiteSpace c"
      "newId \<in> set (map s_id (mcpServers d)) \<or> \<not> secretExists (csb_authSecretId sbody) d"
    for name url
  proof -
    from that(5) have "newId \<in> set (map s_id (mcpServers d))
        \<or> \<not> secretExists (si_authSecretId (?sdata name url)) d" by simp
    from createServer_refused[OF this, of t1 t2 u] unfold[OF that(1-4)]
    show ?thesis by simp
  qed
  have stotal: "snd ?S = d \<or> (\<exists>name url row. csb_name sbody = Some name \<and> csb_url sbody = Some url
                  \<and> snd ?S = d\<lparr>mcpServers := mcpServers d @ [row]\<rparr>
                  \<and> s_name row = trim name \<and> s_url row = trim url
                  \<and> s_description row = map_option trim (csb_description sbody))"
  proof (cases "csb_name sbody = None \<or> (\<exists>name. csb_name sbody = Some name \<and> (\<forall>c \<in> set name. isWhiteSpace c))")
    case True
    from s400n[OF True] show ?thesis by simp
  next
    case False
    then obtain name where n: "csb_name sbody = Some name" "\<exists>c \<in> set name. \<not> isWhiteSpace c"
      by auto
    show ?thesis
    proof (cases "csb_url sbody = None \<or> (\<exists>url. csb_url sbody = Some url \<and> (\<forall>c \<in> set url. isWhiteSpace c))")
      case True
      from s400u[OF n True] show ?thesis by simp
    next
      case False
      then obtain url where w: "csb_url sbody = Some url" "\<exists>c \<in> set url. \<not> isWhiteSpace c"
        by auto
      show ?thesis
      proof (cases "newId \<in> set (map s_id (mcpServers d)) \<or> \<not> secretExists (csb_authSecretId sbody) d")
        case True
        from s500[OF n w True] show ?thesis by simp
      next
        case False
        then have "newId \<notin> set (map s_id (mcpServers d))" "secretExists (csb_authSecretId sbody) d"
          by simp_all
        from sok[OF n w this] n(1) w(1) show ?thesis by fastforce
      qed
    qed
  qed
  from p400 pok ptotal s400n s400u sok s500 stotal show ?thesis
    by (intro conjI allI impI) (blast | (elim conjE, blast))+
qed

text \<open>
  In the witness a name of two spaces and a name that is the ideographic space U+3000 are
  both refused; a name and a description with spaces around them are stored without them;
  a server whose url is one space is refused; a server that names the stored secret k1 is
  stored with its name and url trimmed, and one that names a missing secret is answered
  with 500 and not stored.
\<close>

theorem create_stores_trimmed_witness:
  "ProjectsController_createProject ''r2'' 2000 2001 ''alice''
      (BodyParsed \<lparr>cpb_name = Some (str ''  ''), cpb_description = Some (str ''x'')\<rparr>) ex_db =
     (ErrorResponse ''Project name is required'' 400, ex_db)
   \<and> ProjectsController_createProject ''r2'' 2000 2001 ''alice''
      (BodyParsed \<lparr>cpb_name = Some [12288], cpb_description = None\<rparr>) ex_db =
     (ErrorResponse ''Project name is required'' 400, ex_db)
   \<and> fst (ProjectsController_createProject ''r2'' 2000 2001 ''alice''
      (BodyParsed \<lparr>cpb_name = Some (str ''  My app ''),
                   cpb_description = Some (str '' notes  '')\<rparr>) ex_db) =
     SuccessResponse
       \<lparr>pd_project =
          Some \<lparr>p_id = ''r2'', p_userId = ''alice'', p_name = str ''My app'',
                p_description = Some (str ''notes''), p_status = Draft,
                p_createdAt = Some 2000, p_updatedAt = Some 2001\<rparr>,
        pd_appCount = Some 0, pd_message = Some ''Project created successfully''\<rparr>
   \<and> MCPServersController_createServer ''r2'' 2000 2001 ''alice''
      (BodyParsed \<lparr>csb_name = Some (str ''srv''), csb_url = Some (str '' ''),
                   csb_transport = None, csb_authType = None, csb_authSecretId = None,
                   csb_description = None, csb_enabled = None\<rparr>) ex_db =
     (ErrorResponse ''Server URL is required'' 400, ex_db)
   \<and> (\<exists>row. MCPServersController_createServer ''r2'' 2000 2001 ''alice''
      (BodyParsed \<lparr>csb_name = Some (str '' srv''), csb_url = Some (str ''http://s.test ''),
                   csb_transport = None, csb_authType = Some Bearer,
                   csb_authSecretId = Some ''k1'', csb_description = None,
                   csb_enabled = None\<rparr>) ex_db =
        (SuccessResponse
           \<lparr>sd_server = Some row, sd_message = Some ''MCP server created successfully''\<rparr>,
         ex_db\<lparr>mcpServers := mcpServers ex_db @ [row]\<rparr>)
      \<and> s_name row = str ''srv'' \<and> s_url row = str ''http://s.test'')
   \<and> MCPServersController_createServer ''r2'' 2000 2001 ''alice''
      (BodyParsed \<lparr>csb_name = Some (str ''srv''), csb_url = Some (str ''http://s.test''),
                   csb_transport = None, csb_authType = Some Bearer,
                   csb_authSecretId = Some ''nosuch'', csb_description = None,
                   csb_enabled = None\<rparr>) ex_db =
     (ErrorResponse ''Failed to create MCP server'' 500, ex_db)"
proof -
  have ws: "\<forall>c \<in> set (str ''  ''). isWhiteSpace c" "\<forall>c \<in> set [12288]. isWhiteSpace c"
    "\<forall>c \<in> set (str '' ''). isWhiteSpace c"
    by (simp_all add: str_def isWhiteSpace_def)
  have nws: "\<exists>c \<in> set (str ''  My app ''). \<not> isWhiteSpace c"
    "\<exists>c \<in> set (str ''srv''). \<not> isWhiteSpace c" "\<exists>c \<in> set (str '' srv''). \<not> isWhiteSpace c"
    "\<exists>c \<in> set (str ''http://s.test''). \<not> isWhiteSpace c"
    "\<exists>c \<in> set (str ''http://s.test ''). \<not> isWhiteSpace c"
    by (simp_all add: str_def isWhiteSpace_def)
  have tr: "trim (str ''  My app '') = str ''My app''" "trim (str '' notes  '') = str ''notes''"
    "trim (str '' srv'') = str ''srv''" "trim (str ''http://s.test '') = str ''http://s.test''"
    by (simp_all add: trim_def str_def isWhiteSpace_def)
  have fresh: "''r2'' \<notin> set (map p_id (projects ex_db))"
    "''r2'' \<notin> set (map s_id (mcpServers ex_db))"
    by (simp_all add: ex_db_def ex_project_def ex_server_def)
  have sec: "secretExists (Some ''k1'') ex_db" "\<not> secretExists (Some ''nosuch'') ex_db"
    by (simp_all add: secretExists_def ex_db_def)
  note T = create_stores_trimmed[where newId = "''r2''" and ?t1.0 = 2000 and ?t2.0 = 2001
      and u = "''alice''" and d = ex_db]
  from T[where body = "\<lparr>cpb_name = Some (str ''  ''), cpb_description = Some (str ''x'')\<rparr>"] ws
  have 1: "ProjectsController_createProject ''r2'' 2000 2001 ''alice''
      (BodyParsed \<lparr>cpb_name = Some (str ''  ''), cpb_description = Some (str ''x'')\<rparr>) ex_db =
     (ErrorResponse ''Project name is required'' 400, ex_db)"
    by simp
  from T[where body = "\<lparr>cpb_name = Some [12288], cpb_description = None\<rparr>"] ws
  have 2: "ProjectsController_createProject ''r2'' 2000 2001 ''alice''
      (BodyParsed \<lparr>cpb_name = Some [12288], cpb_description = None\<rparr>) ex_db =
     (ErrorResponse ''Project name is required'' 400, ex_db)"
    by simp
  from T[where body = "\<lparr>cpb_name = Some (str ''  My app ''),
                        cpb_description = Some (str '' notes  '')\<rparr>"] nws fresh
  have 3: "fst (ProjectsController_createProject ''r2'' 2000 2001 ''alice''
      (BodyParsed \<lparr>cpb_name = Some (str ''  My app ''),
                   cpb_description = Some (str '' notes  '')\<rparr>) ex_db) =
     SuccessResponse
       \<lparr>pd_project =
          Some \<lparr>p_id = ''r2'', p_userId = ''alice'', p_name = str ''My app'',
                p_description = Some (str ''notes''), p_status = Draft,
                p_createdAt = Some 2000, p_updatedAt = Some 2001\<rparr>,
        pd_appCount = Some 0, pd_message = Some ''Project created successfully''\<rparr>"
    by (simp add: tr)
  from T[where sbody = "\<lparr>csb_name = Some (str ''srv''), csb_url = Some (str '' ''),
                   csb_transport = None, csb_authType = None, csb_authSecretId = None,
                   csb_description = None, csb_enabled = None\<rparr>"] ws nws
  have 4: "MCPServersController_createServer ''r2'' 2000 2001 ''alice''
      (BodyParsed \<lparr>csb_name = Some (str ''srv''), csb_url = Some (str '' ''),
                   csb_transport = None, csb_authType = None, csb_authSecretId = None,
                   csb_description = None, csb_enabled = None\<rparr>) ex_db =
     (ErrorResponse ''Server URL is required'' 400, ex_db)"
    by simp
  from T[where sbody = "\<lparr>csb_name = Some (str '' srv''), csb_url = Some (str ''http://s.test ''),
                   csb_transport = None, csb_authType = Some Bearer,
                   csb_authSecretId = Some ''k1'', csb_description = None,
                   csb_enabled = None\<rparr>"] nws fresh sec
  have 5: "\<exists>row. MCPServersController_createServer ''r2'' 2000 2001 ''alice''
      (BodyParsed \<lparr>csb_name = Some (str '' srv''), csb_url = Some (str ''http://s.test ''),
                   csb_transport = None, csb_authType = Some Bearer,
                   csb_authSecretId = Some ''k1'', csb_description = None,
                   csb_enabled = None\<rparr>) ex_db =
        (SuccessResponse
           \<lparr>sd_server = Some row, sd_message = Some ''MCP server created successfully''\<rparr>,
         ex_db\<lparr>mcpServers := mcpServers ex_db @ [row]\<rparr>)
      \<and> s_name row = str ''srv'' \<and> s_url row = str ''http://s.test''"
    by (simp add: tr) blast
  from T[where sbody = "\<lparr>csb_name = Some (str ''srv''), csb_url = Some (str ''http://s.test''),
                   csb_transport = None, csb_authType = Some Bearer,
                   csb_authSecretId = Some ''nosuch'', csb_description = None,
                   csb_enabled = None\<rparr>"] nws sec
  have 6: "MCPServersController_createServer ''r2'' 2000 2001 ''alice''
      (BodyParsed \<lparr>csb_name = Some (str ''srv''), csb_url = Some (str ''http://s.test''),
                   csb_transport = None, csb_authType = Some Bearer,
                   csb_authSecretId = Some ''nosuch'', csb_description = None,
                   csb_enabled = None\<rparr>) ex_db =
     (ErrorResponse ''Failed to create MCP server'' 500, ex_db)"
    by simp
  from 1 2 3 4 5 6 show ?thesis by blast
qed

section \<open>Partial updates\<close>

lemma distinct_key_head:
  "distinct (map key (x # xs)) \<Longrightarrow> y \<in> set xs \<Longrightarrow> key y \<noteq> key x"
  by (metis distinct.simps(2) image_eqI list.simps(9) set_map)

lemma find_by_key_of_distinct:
  "distinct (map key xs) \<Longrightarrow> find (\<lambda>x. key x = k \<and> P x) xs = Some ex
     \<Longrightarrow> find (\<lambda>x. key x = k) xs = Some ex"
proof (induction xs)
  case Nil
  then show ?case by simp
next
  case (Cons x xs)
  show ?case
  proof (cases "key x = k")
    case True
    note kx = this
    show ?thesis
    proof (cases "P x")
      case True
      with kx Cons.prems show ?thesis by simp
    next
      case False
      with kx Cons.prems have "find (\<lambda>x. key x = k \<and> P x) xs = Some ex" by simp
      then have "ex \<in> set xs \<and> key ex = k"
        by (auto simp: find_Some_iff)
      with kx distinct_key_head[OF Cons.prems(1), of ex] show ?thesis by simp
    qed
  next
    case False
    with Cons show ?thesis by simp
  qed
qed

lemma find_map_keeping_key:
  "(\<And>x. key (g x) = key x) \<Longrightarrow>
     find (\<lambda>x. key x = k) (map g xs) = map_option g (find (\<lambda>x. key x = k) xs)"
  by (induction xs) auto

lemma s_id_setServer: "s_id (setServer now data s) = s_id s"
  by (simp add: setServer_def)

lemma p_id_setProject: "p_id (setProject now data p) = p_id p"
  by (simp add: setProject_def)

lemma updateServer_owned:
  assumes "wf_db d" and "getServer u sid d = Some ex"
    and "su_authSecretId data = None
         \<or> (\<exists>a. su_authSecretId data = Some a \<and> secretExists a d)"
  shows "updateServer now u sid data d =
           (Inr (Some (setServer now data ex)), updateWhereId sid (setServer now data) d)"
proof -
  from assms have "find (\<lambda>s. s_id s = sid) (mcpServers d) = Some ex"
    by (auto simp: wf_db_def getServer_def intro: find_by_key_of_distinct)
  then have "find (\<lambda>s. s_id s = sid)
               (map (\<lambda>s. if s_id s = sid then setServer now data s else s) (mcpServers d)) =
             Some (setServer now data ex)"
    by (subst find_map_keeping_key) (auto simp: s_id_setServer find_Some_iff)
  with assms(2,3) show ?thesis
    by (auto simp: updateServer_def updateWhereId_def Let_def)
qed

lemma updateServer_refused:
  assumes "getServer u sid d = Some ex" and "su_authSecretId data = Some (Some k)"
    and "k \<notin> set (userSecrets d)"
  shows "updateServer now u sid data d = (Inl DatabaseError, d)"
  using assms by (simp add: updateServer_def secretExists_def)

lemma updateProject_owned:
  assumes "wf_db d" and "ownedProject u pid d = Some ex"
  shows "updateProject now u pid data d =
           (Some (setProject now data ex),
            d\<lparr>projects := map (\<lambda>p. if p_id p = pid then setProject now data p else p)
                              (projects d)\<rparr>)"
proof -
  from assms have "find (\<lambda>p. p_id p = pid) (projects d) = Some ex"
    by (auto simp: wf_db_def ownedProject_def intro: find_by_key_of_distinct)
  then have "find (\<lambda>p. p_id p = pid)
               (map (\<lambda>p. if p_id p = pid then setProject now data p else p) (projects d)) =
             Some (setProject now data ex)"
    by (subst find_map_keeping_key) (auto simp: p_id_setProject find_Some_iff)
  with assms(2) show ?thesis
    by (simp add: updateProject_def Let_def)
qed

lemma map_replace_unique:
  "distinct (map key xs) \<Longrightarrow> find (\<lambda>x. key x = k) xs = Some ex \<Longrightarrow>
     map (\<lambda>x. if key x = k then g x else x) xs = map (\<lambda>x. if x = ex then g ex else x) xs"
proof (induction xs)
  case Nil
  then show ?case by simp
next
  case (Cons x xs)
  show ?case
  proof (cases "key x = k")
    case True
    with Cons.prems have e: "x = ex" by simp
    have "\<forall>y \<in> set xs. key y \<noteq> k"
    proof
      fix y assume "y \<in> set xs"
      from distinct_key_head[OF Cons.prems(1) this] True show "key y \<noteq> k" by simp
    qed
    then have ne: "\<forall>y \<in> set xs. y \<noteq> ex" using e True by blast
    have "map (\<lambda>x. if key x = k then g x else x) xs = map (\<lambda>x. x) xs"
      by (rule map_cong) (use \<open>\<forall>y \<in> set xs. key y \<noteq> k\<close> in auto)
    moreover have "map (\<lambda>x. if x = ex then g ex else x) xs = map (\<lambda>x. x) xs"
      by (rule map_cong) (use ne in auto)
    ultimately have "map (\<lambda>x. if key x = k then g x else x) xs = xs"
      "map (\<lambda>x. if x = ex then g ex else x) xs = xs"
      by simp_all
    with e True show ?thesis by simp
  next
    case False
    with Cons.prems have "find (\<lambda>x. key x = k) xs = Some ex" by simp
    moreover from this have "key ex = k" by (auto simp: find_Some_iff)
    ultimately show ?thesis using Cons False by auto
  qed
qed

lemma find_map_keeping:
  "(\<And>x. P (g x) = P x) \<Longrightarrow> find P (map g xs) = map_option g (find P xs)"
  by (induction xs) auto

lemma updateWhereId_unique:
  assumes "wf_db d" and "getServer u sid d = Some ex"
  shows "updateWhereId sid f d = d\<lparr>mcpServers := map (\<lambda>s. if s = ex then f ex else s) (mcpServers d)\<rparr>"
proof -
  from assms have "find (\<lambda>s. s_id s = sid) (mcpServers d) = Some ex"
    by (auto simp: wf_db_def getServer_def intro: find_by_key_of_distinct)
  with assms(1) show ?thesis
    by (simp add: updateWhereId_def wf_db_def map_replace_unique)
qed

lemma wf_db_updateWhereId:
  "wf_db d \<Longrightarrow> (\<And>s. s_id (f s) = s_id s) \<Longrightarrow> wf_db (updateWhereId sid f d)"
proof -
  assume w: "wf_db d" and k: "\<And>s. s_id (f s) = s_id s"
  have eq: "map (s_id \<circ> (\<lambda>s. if s_id s = sid then f s else s)) (mcpServers d) =
        map s_id (mcpServers d)"
    by (rule map_cong) (simp_all add: k)
  from w have "distinct (map s_id (mcpServers d))" by (simp add: wf_db_def)
  then have "distinct (map (s_id \<circ> (\<lambda>s. if s_id s = sid then f s else s)) (mcpServers d))"
    by (simp only: eq)
  with w show ?thesis by (simp add: wf_db_def updateWhereId_def)
qed

lemma getServer_updateWhereId:
  assumes "\<And>s. s_id (f s) = s_id s" and "\<And>s. s_userId (f s) = s_userId s"
  shows "getServer u k (updateWhereId sid f d) =
           map_option (\<lambda>s. if s_id s = sid then f s else s) (getServer u k d)"
  unfolding getServer_def updateWhereId_def
  by (simp add: find_map_keeping assms)

text \<open>
  C5, as the code has it. With unique ids in the store and a server the caller owns: for
  a payload whose authSecretId is absent, null or the id of a stored secret, updateServer
  returns the stored row with each of name, url, transport, authType, authSecretId,
  description and enabled replaced when the payload holds it and kept when it does not,
  updatedAt set to the time of the call, and the remaining columns (status, lastChecked,
  lastError among them) as they were; in the store that row alone is replaced. For a
  payload whose authSecretId names no stored secret the update violates the foreign key:
  updateServer throws and the store, updatedAt included, stays as it was. updateProject
  with a payload that holds only a status returns the project with status and updatedAt
  set and every other column, name and description among them, unchanged.
\<close>

theorem partial_update_frame:
  assumes "wf_db d"
  shows "(\<forall>ex. getServer u sid d = Some ex
            \<and> (su_authSecretId sdata = None \<or> su_authSecretId sdata = Some None
                \<or> (\<exists>k. su_authSecretId sdata = Some (Some k) \<and> k \<in> set (userSecrets d))) \<longrightarrow>
            (\<exists>row. updateServer now u sid sdata d =
                     (Inr (Some row),
                      d\<lparr>mcpServers := map (\<lambda>s. if s = ex then row else s) (mcpServers d)\<rparr>)
               \<and> s_name row = (case su_name sdata of None \<Rightarrow> s_name ex | Some v \<Rightarrow> v)
               \<and> s_url row = (case su_url sdata of None \<Rightarrow> s_url ex | Some v \<Rightarrow> v)
               \<and> s_transport row = (case su_transport sdata of None \<Rightarrow> s_transport ex | Some v \<Rightarrow> v)
               \<and> s_authType row = (case su_authType sdata of None \<Rightarrow> s_authType ex | Some v \<Rightarrow> v)
               \<and> s_authSecretId row =
                   (case su_authSecretId sdata of None \<Rightarrow> s_authSecretId ex | Some v \<Rightarrow> v)
               \<and> s_description row =
                   (case su_description sdata of None \<Rightarrow> s_description ex | Some v \<Rightarrow> v)
               \<and> s_enabled row = (case su_enabled sdata of None \<Rightarrow> s_enabled ex | Some v \<Rightarrow> Some v)
               \<and> s_updatedAt row = Some now
               \<and> s_status row = s_status ex
               \<and> s_lastChecked row = s_lastChecked ex
               \<and> s_lastError row = s_lastError ex
               \<and> s_id row = s_id ex \<and> s_userId row = s_userId ex
               \<and> s_createdAt row = s_createdAt ex))
    \<and> (\<forall>ex k. getServer u sid d = Some ex \<and> su_authSecretId sdata = Some (Some k)
            \<and> k \<notin> set (userSecrets d) \<longrightarrow>
            updateServer now u sid sdata d = (Inl DatabaseError, d))
    \<and> (\<forall>ex st. ownedProject u pid d = Some ex \<longrightarrow>
            updateProject now u pid \<lparr>pu_name = None, pu_description = None, pu_status = Some st\<rparr> d =
              (Some (ex\<lparr>p_status := st, p_updatedAt := Some now\<rparr>),
               d\<lparr>projects := map (\<lambda>p. if p = ex then ex\<lparr>p_status := st, p_updatedAt := Some now\<rparr>
                                      else p) (projects d)\<rparr>))"
proof (intro conjI allI impI)
  fix ex
  assume a: "getServer u sid d = Some ex
      \<and> (su_authSecretId sdata = None \<or> su_authSecretId sdata = Some None
          \<or> (\<exists>k. su_authSecretId sdata = Some (Some k) \<and> k \<in> set (userSecrets d)))"
  then have g: "getServer u sid d = Some ex" by simp
  from a have ok: "su_authSecretId sdata = None
      \<or> (\<exists>a. su_authSecretId sdata = Some a \<and> secretExists a d)"
    by (auto simp: secretExists_def)
  let ?row = "setServer now sdata ex"
  have "updateServer now u sid sdata d =
          (Inr (Some ?row), d\<lparr>mcpServers := map (\<lambda>s. if s = ex then ?row else s) (mcpServers d)\<rparr>)"
    using updateServer_owned[OF assms g ok] updateWhereId_unique[OF assms g] by simp
  moreover have "s_updatedAt ?row = Some now" "s_status ?row = s_status ex"
    "s_lastChecked ?row = s_lastChecked ex" "s_lastError ?row = s_lastError ex"
    "s_id ?row = s_id ex" "s_userId ?row = s_userId ex" "s_createdAt ?row = s_createdAt ex"
    by (simp_all add: setServer_def)
  moreover have "s_name ?row = (case su_name sdata of None \<Rightarrow> s_name ex | Some v \<Rightarrow> v)"
    "s_url ?row = (case su_url sdata of None \<Rightarrow> s_url ex | Some v \<Rightarrow> v)"
    "s_transport ?row = (case su_transport sdata of None \<Rightarrow> s_transport ex | Some v \<Rightarrow> v)"
    "s_authType ?row = (case su_authType sdata of None \<Rightarrow> s_authType ex | Some v \<Rightarrow> v)"
    "s_authSecretId ?row = (case su_authSecretId sdata of None \<Rightarrow> s_authSecretId ex | Some v \<Rightarrow> v)"
    "s_description ?row = (case su_description sdata of None \<Rightarrow> s_description ex | Some v \<Rightarrow> v)"
    "s_enabled ?row = (case su_enabled sdata of None \<Rightarrow> s_enabled ex | Some v \<Rightarrow> Some v)"
    by (simp_all add: setServer_def)
  ultimately show "\<exists>row. updateServer now u sid sdata d =
                     (Inr (Some row),
                      d\<lparr>mcpServers := map (\<lambda>s. if s = ex then row else s) (mcpServers d)\<rparr>)
               \<and> s_name row = (case su_name sdata of None \<Rightarrow> s_name ex | Some v \<Rightarrow> v)
               \<and> s_url row = (case su_url sdata of None \<Rightarrow> s_url ex | Some v \<Rightarrow> v)
               \<and> s_transport row = (case su_transport sdata of None \<Rightarrow> s_transport ex | Some v \<Rightarrow> v)
               \<and> s_authType row = (case su_authType sdata of None \<Rightarrow> s_authType ex | Some v \<Rightarrow> v)
               \<and> s_authSecretId row =
                   (case su_authSecretId sdata of None \<Rightarrow> s_authSecretId ex | Some v \<Rightarrow> v)
               \<and> s_description row =
                   (case su_description sdata of None \<Rightarrow> s_description ex | Some v \<Rightarrow> v)
               \<and> s_enabled row = (case su_enabled sdata of None \<Rightarrow> s_enabled ex | Some v \<Rightarrow> Some v)
               \<and> s_updatedAt row = Some now
               \<and> s_status row = s_status ex
               \<and> s_lastChecked row = s_lastChecked ex
               \<and> s_lastError row = s_lastError ex
               \<and> s_id row = s_id ex \<and> s_userId row = s_userId ex
               \<and> s_createdAt row = s_createdAt ex"
    by blast
next
  fix ex k
  assume "getServer u sid d = Some ex \<and> su_authSecretId sdata = Some (Some k)
      \<and> k \<notin> set (userSecrets d)"
  then show "updateServer now u sid sdata d = (Inl DatabaseError, d)"
    by (auto intro: updateServer_refused)
next
  fix ex st assume o: "ownedProject u pid d = Some ex"
  let ?data = "\<lparr>pu_name = None, pu_description = None, pu_status = Some st\<rparr>"
  have r: "setProject now ?data ex = ex\<lparr>p_status := st, p_updatedAt := Some now\<rparr>"
    by (simp add: setProject_def)
  from assms o have f: "find (\<lambda>p. p_id p = pid) (projects d) = Some ex"
    by (auto simp: wf_db_def ownedProject_def intro: find_by_key_of_distinct)
  from assms have "distinct (map p_id (projects d))" by (simp add: wf_db_def)
  from map_replace_unique[OF this f, of "setProject now ?data"]
  have "map (\<lambda>p. if p_id p = pid then setProject now ?data p else p) (projects d) =
        map (\<lambda>p. if p = ex then ex\<lparr>p_status := st, p_updatedAt := Some now\<rparr> else p) (projects d)"
    by (simp only: r)
  with updateProject_owned[OF assms o, of now ?data] r
  show "updateProject now u pid ?data d =
          (Some (ex\<lparr>p_status := st, p_updatedAt := Some now\<rparr>),
           d\<lparr>projects := map (\<lambda>p. if p = ex then ex\<lparr>p_status := st, p_updatedAt := Some now\<rparr>
                                  else p) (projects d)\<rparr>)"
    by simp
qed

lemma wf_ex_db: "wf_db ex_db"
  by (simp add: wf_db_def ex_db_def)

theorem partial_update_frame_witness:
  "fst (updateServer 3000 ''alice'' ''r1''
          \<lparr>su_name = None, su_url = Some (str ''http://new.test''), su_transport = None,
           su_authType = None, su_authSecretId = Some (Some ''k1''), su_description = Some None,
           su_enabled = None\<rparr> ex_db) =
     Inr (Some (ex_server\<lparr>s_url := str ''http://new.test'', s_authSecretId := Some ''k1'',
                          s_updatedAt := Some 3000\<rparr>))
   \<and> updateServer 3000 ''alice'' ''r1''
          \<lparr>su_name = None, su_url = Some (str ''http://new.test''), su_transport = None,
           su_authType = None, su_authSecretId = Some (Some ''nosuch''),
           su_description = Some None, su_enabled = None\<rparr> ex_db =
       (Inl DatabaseError, ex_db)
   \<and> updateProject 3000 ''alice'' ''r1''
         \<lparr>pu_name = None, pu_description = None, pu_status = Some Archived\<rparr> ex_db =
       (Some (ex_project\<lparr>p_status := Archived, p_updatedAt := Some 3000\<rparr>),
        ex_db\<lparr>projects := [ex_project\<lparr>p_status := Archived, p_updatedAt := Some 3000\<rparr>]\<rparr>)"
proof -
  have g: "getServer ''alice'' ''r1'' ex_db = Some ex_server"
    by (simp add: getServer_def ex_db_def ex_server_def)
  have o: "ownedProject ''alice'' ''r1'' ex_db = Some ex_project"
    by (simp add: ownedProject_def ex_db_def ex_project_def)
  have k: "''k1'' \<in> set (userSecrets ex_db)" "''nosuch'' \<notin> set (userSecrets ex_db)"
    by (simp_all add: ex_db_def)
  note T = partial_update_frame[OF wf_ex_db, where u = "''alice''" and sid = "''r1''"
      and now = 3000 and pid = "''r1''"]
  from T[where sdata = "\<lparr>su_name = None, su_url = Some (str ''http://new.test''),
           su_transport = None, su_authType = None, su_authSecretId = Some (Some ''k1''),
           su_description = Some None, su_enabled = None\<rparr>"] g k
  obtain row where row: "fst (updateServer 3000 ''alice'' ''r1''
          \<lparr>su_name = None, su_url = Some (str ''http://new.test''), su_transport = None,
           su_authType = None, su_authSecretId = Some (Some ''k1''), su_description = Some None,
           su_enabled = None\<rparr> ex_db) = Inr (Some row)"
    and "s_name row = s_name ex_server" "s_url row = str ''http://new.test''"
      "s_transport row = s_transport ex_server" "s_authType row = s_authType ex_server"
      "s_authSecretId row = Some ''k1''" "s_description row = None"
      "s_enabled row = s_enabled ex_server" "s_updatedAt row = Some 3000"
      "s_status row = s_status ex_server" "s_lastChecked row = s_lastChecked ex_server"
      "s_lastError row = s_lastError ex_server" "s_id row = s_id ex_server"
      "s_userId row = s_userId ex_server" "s_createdAt row = s_createdAt ex_server"
    by auto
  then have "row = ex_server\<lparr>s_url := str ''http://new.test'', s_authSecretId := Some ''k1'',
                             s_updatedAt := Some 3000\<rparr>"
    by (cases row) (simp add: ex_server_def)
  with row have 1: "fst (updateServer 3000 ''alice'' ''r1''
          \<lparr>su_name = None, su_url = Some (str ''http://new.test''), su_transport = None,
           su_authType = None, su_authSecretId = Some (Some ''k1''), su_description = Some None,
           su_enabled = None\<rparr> ex_db) =
     Inr (Some (ex_server\<lparr>s_url := str ''http://new.test'', s_authSecretId := Some ''k1'',
                          s_updatedAt := Some 3000\<rparr>))"
    by simp
  from T[where sdata = "\<lparr>su_name = None, su_url = Some (str ''http://new.test''),
           su_transport = None, su_authType = None, su_authSecretId = Some (Some ''nosuch''),
           su_description = Some None, su_enabled = None\<rparr>"] g k
  have 2: "updateServer 3000 ''alice'' ''r1''
          \<lparr>su_name = None, su_url = Some (str ''http://new.test''), su_transport = None,
           su_authType = None, su_authSecretId = Some (Some ''nosuch''),
           su_description = Some None, su_enabled = None\<rparr> ex_db =
       (Inl DatabaseError, ex_db)"
    by simp
  from T o have "updateProject 3000 ''alice'' ''r1''
         \<lparr>pu_name = None, pu_description = None, pu_status = Some Archived\<rparr> ex_db =
       (Some (ex_project\<lparr>p_status := Archived, p_updatedAt := Some 3000\<rparr>),
        ex_db\<lparr>projects := map (\<lambda>p. if p = ex_project
                                     then ex_project\<lparr>p_status := Archived, p_updatedAt := Some 3000\<rparr>
                                     else p) (projects ex_db)\<rparr>)"
    by blast
  moreover have "map (\<lambda>p. if p = ex_project
                  then ex_project\<lparr>p_status := Archived, p_updatedAt := Some 3000\<rparr>
                  else p) (projects ex_db) =
        [ex_project\<lparr>p_status := Archived, p_updatedAt := Some 3000\<rparr>]"
    by (simp add: ex_db_def)
  ultimately have 3: "updateProject 3000 ''alice'' ''r1''
         \<lparr>pu_name = None, pu_description = None, pu_status = Some Archived\<rparr> ex_db =
       (Some (ex_project\<lparr>p_status := Archived, p_updatedAt := Some 3000\<rparr>),
        ex_db\<lparr>projects := [ex_project\<lparr>p_status := Archived, p_updatedAt := Some 3000\<rparr>]\<rparr>)"
    by simp
  from 1 2 3 show ?thesis by blast
qed

text \<open>
  A payload that names a secret the store does not hold: the caller owns the server, yet
  the call throws and the row keeps the updatedAt it had, 1000, although the call was made
  at 3000.
\<close>

theorem updateServer_missing_secret_counterexample:
  "getServer ''alice'' ''r1'' ex_db = Some ex_server
   \<and> s_updatedAt ex_server = Some 1000
   \<and> updateServer 3000 ''alice'' ''r1''
        \<lparr>su_name = None, su_url = None, su_transport = None, su_authType = None,
         su_authSecretId = Some (Some ''nosuch''), su_description = None,
         su_enabled = None\<rparr> ex_db =
       (Inl DatabaseError, ex_db)"
  by (simp add: getServer_def updateServer_def secretExists_def ex_db_def ex_server_def)

section \<open>Toggling a server\<close>

lemma toggleServer_owned:
  assumes "wf_db d" and "getServer u sid d = Some ex"
  shows "toggleServer now u sid d =
           (Inr (Some (ex\<lparr>s_enabled := Some (js_not (s_enabled ex)), s_updatedAt := Some now\<rparr>)),
            updateWhereId sid
              (\<lambda>s. s\<lparr>s_enabled := Some (js_not (s_enabled ex)), s_updatedAt := Some now\<rparr>) d)"
proof -
  let ?f = "\<lambda>s. s\<lparr>s_enabled := Some (js_not (s_enabled ex)), s_updatedAt := Some now\<rparr>"
  from assms have "find (\<lambda>s. s_id s = sid) (mcpServers d) = Some ex"
    by (auto simp: wf_db_def getServer_def intro: find_by_key_of_distinct)
  then have "find (\<lambda>s. s_id s = sid)
               (map (\<lambda>s. if s_id s = sid then ?f s else s) (mcpServers d)) = Some (?f ex)"
    by (subst find_map_keeping) (auto simp: find_Some_iff)
  with assms(2) show ?thesis
    by (simp add: toggleServer_def updateWhereId_def Let_def)
qed

lemma js_not_changes: "Some (js_not b) \<noteq> b"
  by (cases b) (auto simp: js_not_def)

text \<open>
  C6, as the code has it. With unique ids in the store and a server the caller owns,
  toggleServer stores and returns the row with enabled set to the negation of the stored
  value (true gives false; false and NULL give true), which never equals the stored value,
  and with updatedAt set to the time of the call; no other column and no other row
  changes. A second call returns the row with the original value when that was true or
  false, and with false when it was NULL.
\<close>

theorem toggleServer_negates:
  assumes "wf_db d" and "getServer u sid d = Some ex"
  shows "toggleServer now u sid d =
           (Inr (Some (ex\<lparr>s_enabled := Some (js_not (s_enabled ex)), s_updatedAt := Some now\<rparr>)),
            d\<lparr>mcpServers :=
                 map (\<lambda>s. if s = ex
                           then ex\<lparr>s_enabled := Some (js_not (s_enabled ex)), s_updatedAt := Some now\<rparr>
                           else s) (mcpServers d)\<rparr>)
    \<and> Some (js_not (s_enabled ex)) \<noteq> s_enabled ex
    \<and> (s_enabled ex = Some True \<longrightarrow> js_not (s_enabled ex) = False)
    \<and> (s_enabled ex = Some False \<longrightarrow> js_not (s_enabled ex) = True)
    \<and> (s_enabled ex = None \<longrightarrow> js_not (s_enabled ex) = True)
    \<and> fst (toggleServer now' u sid (snd (toggleServer now u sid d))) =
          Inr (Some (ex\<lparr>s_enabled := (case s_enabled ex of None \<Rightarrow> Some False | Some b \<Rightarrow> Some b),
                        s_updatedAt := Some now'\<rparr>))"
proof -
  let ?f = "\<lambda>s. s\<lparr>s_enabled := Some (js_not (s_enabled ex)), s_updatedAt := Some now\<rparr>"
  let ?d' = "updateWhereId sid ?f d"
  have first: "toggleServer now u sid d = (Inr (Some (?f ex)), ?d')"
    by (rule toggleServer_owned[OF assms])
  have store: "?d' = d\<lparr>mcpServers := map (\<lambda>s. if s = ex then ?f ex else s) (mcpServers d)\<rparr>"
    by (rule updateWhereId_unique[OF assms])
  have wf': "wf_db ?d'"
    by (rule wf_db_updateWhereId[OF assms(1)]) simp
  from assms(2) have "s_id ex = sid"
    by (auto simp: getServer_def find_Some_iff)
  then have g': "getServer u sid ?d' = Some (?f ex)"
    by (subst getServer_updateWhereId) (simp_all add: assms(2))
  have "toggleServer now' u sid ?d' =
          (Inr (Some ((?f ex)\<lparr>s_enabled := Some (js_not (s_enabled (?f ex))),
                               s_updatedAt := Some now'\<rparr>)),
           updateWhereId sid
             (\<lambda>s. s\<lparr>s_enabled := Some (js_not (s_enabled (?f ex))), s_updatedAt := Some now'\<rparr>) ?d')"
    by (rule toggleServer_owned[OF wf' g'])
  moreover have "(?f ex)\<lparr>s_enabled := Some (js_not (s_enabled (?f ex))), s_updatedAt := Some now'\<rparr> =
      ex\<lparr>s_enabled := (case s_enabled ex of None \<Rightarrow> Some False | Some b \<Rightarrow> Some b),
         s_updatedAt := Some now'\<rparr>"
    by (cases "s_enabled ex") (simp_all add: js_not_def)
  ultimately have second: "fst (toggleServer now' u sid (snd (toggleServer now u sid d))) =
      Inr (Some (ex\<lparr>s_enabled := (case s_enabled ex of None \<Rightarrow> Some False | Some b \<Rightarrow> Some b),
                    s_updatedAt := Some now'\<rparr>))"
    by (simp add: first)
  from first store have "toggleServer now u sid d =
           (Inr (Some (?f ex)),
            d\<lparr>mcpServers := map (\<lambda>s. if s = ex then ?f ex else s) (mcpServers d)\<rparr>)"
    by simp
  with second js_not_changes[of "s_enabled ex"] show ?thesis
    by (simp add: js_not_def)
qed

theorem toggleServer_negates_witness:
  "toggleServer 3000 ''alice'' ''r1'' ex_db =
     (Inr (Some (ex_server\<lparr>s_enabled := Some False, s_updatedAt := Some 3000\<rparr>)),
      ex_db\<lparr>mcpServers := [ex_server\<lparr>s_enabled := Some False, s_updatedAt := Some 3000\<rparr>]\<rparr>)
   \<and> fst (toggleServer 4000 ''alice'' ''r1'' (snd (toggleServer 3000 ''alice'' ''r1'' ex_db))) =
       Inr (Some (ex_server\<lparr>s_updatedAt := Some 4000\<rparr>))"
proof -
  have g: "getServer ''alice'' ''r1'' ex_db = Some ex_server"
    by (simp add: getServer_def ex_db_def ex_server_def)
  have e: "s_enabled ex_server = Some True" by (simp add: ex_server_def)
  have m: "mcpServers ex_db = [ex_server]" by (simp add: ex_db_def)
  have r: "ex_server\<lparr>s_enabled := Some True, s_updatedAt := Some 4000\<rparr> =
           ex_server\<lparr>s_updatedAt := Some 4000\<rparr>"
    by (simp add: ex_server_def)
  note T = toggleServer_negates[OF wf_ex_db g, of 3000 4000]
  from T have "toggleServer 3000 ''alice'' ''r1'' ex_db =
      (Inr (Some (ex_server\<lparr>s_enabled := Some (js_not (s_enabled ex_server)),
                            s_updatedAt := Some 3000\<rparr>)),
       ex_db\<lparr>mcpServers :=
               map (\<lambda>s. if s = ex_server
                         then ex_server\<lparr>s_enabled := Some (js_not (s_enabled ex_server)),
                                        s_updatedAt := Some 3000\<rparr>
                         else s) (mcpServers ex_db)\<rparr>)"
    by (rule conjunct1)
  then have 1: "toggleServer 3000 ''alice'' ''r1'' ex_db =
     (Inr (Some (ex_server\<lparr>s_enabled := Some False, s_updatedAt := Some 3000\<rparr>)),
      ex_db\<lparr>mcpServers := [ex_server\<lparr>s_enabled := Some False, s_updatedAt := Some 3000\<rparr>]\<rparr>)"
    by (simp add: e m js_not_def)
  from T have "fst (toggleServer 4000 ''alice'' ''r1'' (snd (toggleServer 3000 ''alice'' ''r1'' ex_db))) =
      Inr (Some (ex_server\<lparr>s_enabled := (case s_enabled ex_server of None \<Rightarrow> Some False
                                              | Some b \<Rightarrow> Some b),
                           s_updatedAt := Some 4000\<rparr>))"
    by blast
  then have 2: "fst (toggleServer 4000 ''alice'' ''r1'' (snd (toggleServer 3000 ''alice'' ''r1'' ex_db))) =
       Inr (Some (ex_server\<lparr>s_updatedAt := Some 4000\<rparr>))"
    by (simp only: e option.case r)
  from 1 2 show ?thesis by (rule conjI)
qed

text \<open>
  The enabled column is nullable. On a row that holds NULL the first call stores true and
  the second false: two calls do not bring the stored value back.
\<close>

theorem toggleServer_twice_null_counterexample:
  "map s_enabled (mcpServers ex_null_db) = [None]
   \<and> map s_enabled
        (mcpServers (snd (toggleServer 4000 ''alice'' ''r1''
                            (snd (toggleServer 3000 ''alice'' ''r1'' ex_null_db))))) =
       [Some False]"
  by (simp add: ex_null_db_def ex_db_def ex_server_def toggleServer_def getServer_def
      updateWhereId_def js_not_def Let_def)

section \<open>Linking apps to projects\<close>

lemma find_link_None_iff:
  "find (\<lambda>pa. pa_projectId pa = p \<and> pa_appId pa = a) (projectApps d) = None
     \<longleftrightarrow> linkCount p a d = 0"
  by (auto simp: linkCount_def find_None_iff_no_match filter_empty_conv)

lemma no_link_pair:
  "linkCount p a d = 0 \<Longrightarrow>
     (p, a) \<notin> set (map (\<lambda>pa. (pa_projectId pa, pa_appId pa)) (projectApps d))"
  by (auto simp: linkCount_def filter_empty_conv)

lemma filter_key_le_one:
  "distinct (map key xs) \<Longrightarrow> length (filter (\<lambda>x. key x = k) xs) \<le> 1"
proof (induction xs)
  case Nil
  then show ?case by simp
next
  case (Cons x xs)
  show ?case
  proof (cases "key x = k")
    case True
    have "\<forall>y \<in> set xs. key y \<noteq> k"
    proof
      fix y assume "y \<in> set xs"
      from distinct_key_head[OF Cons.prems this] True show "key y \<noteq> k" by simp
    qed
    then have "filter (\<lambda>x. key x = k) xs = []" by (simp add: filter_empty_conv)
    with True show ?thesis by simp
  next
    case False
    with Cons show ?thesis by simp
  qed
qed

lemma linkCount_le_one: "wf_db d \<Longrightarrow> linkCount p a d \<le> 1"
proof -
  assume "wf_db d"
  then have "distinct (map (\<lambda>pa. (pa_projectId pa, pa_appId pa)) (projectApps d))"
    by (simp add: wf_db_def)
  from filter_key_le_one[OF this, of "(p, a)"] show ?thesis
    by (simp add: linkCount_def)
qed

lemma addAppToProject_linked:
  assumes "ownedProject u p d \<noteq> None"
    and "find (\<lambda>x. a_id x = a \<and> a_userId x = u) (apps d) \<noteq> None"
    and "0 < linkCount p a d"
  shows "addAppToProject newId now u p a d = (Inr True, d)"
proof -
  from assms(3) have "find (\<lambda>pa. pa_projectId pa = p \<and> pa_appId pa = a) (projectApps d) \<noteq> None"
    by (simp add: find_link_None_iff)
  with assms(1,2) show ?thesis
    by (auto simp: addAppToProject_def)
qed

lemma find_not_None_ex: "find P xs \<noteq> None \<Longrightarrow> \<exists>x \<in> set xs. P x"
  by (induction xs) (auto split: if_splits)

lemma addAppToProject_fresh:
  assumes "ownedProject u p d \<noteq> None"
    and "find (\<lambda>x. a_id x = a \<and> a_userId x = u) (apps d) \<noteq> None"
    and "linkCount p a d = 0" and "newId \<notin> set (map pa_id (projectApps d))"
  shows "addAppToProject newId now u p a d =
           (Inr True, d\<lparr>projectApps := projectApps d @
              [\<lparr>pa_id = newId, pa_projectId = p, pa_appId = a, pa_addedAt = Some now\<rparr>]\<rparr>)"
proof -
  from assms(3) have "find (\<lambda>pa. pa_projectId pa = p \<and> pa_appId pa = a) (projectApps d) = None"
    by (simp add: find_link_None_iff)
  moreover from assms(1) ownedProject_Some_iff[of u p d]
  obtain prow where "prow \<in> set (projects d)" "p_id prow = p"
    by blast
  then have pk: "p \<in> set (map p_id (projects d))" by force
  from find_not_None_ex[OF assms(2)]
  obtain arow where "arow \<in> set (apps d)" "a_id arow = a"
    by blast
  then have ak: "a \<in> set (map a_id (apps d))" by force
  from assms(3,4) pk ak have "insert_projectApp
      \<lparr>pa_id = newId, pa_projectId = p, pa_appId = a, pa_addedAt = Some now\<rparr> d =
      Some (d\<lparr>projectApps := projectApps d @
              [\<lparr>pa_id = newId, pa_projectId = p, pa_appId = a, pa_addedAt = Some now\<rparr>]\<rparr>)"
    using no_link_pair[OF assms(3)] by (simp add: insert_projectApp_def)
  ultimately show ?thesis using assms(1,2)
    by (auto simp: addAppToProject_def)
qed

lemma addAppToProject_calls_linked:
  assumes "ownedProject u p d \<noteq> None"
    and "find (\<lambda>x. a_id x = a \<and> a_userId x = u) (apps d) \<noteq> None"
    and "0 < linkCount p a d"
  shows "addAppToProject_calls calls u p a d = d"
proof (induction calls)
  case Nil
  show ?case by simp
next
  case (Cons c calls)
  obtain newId now where c: "c = (newId, now)" by (cases c)
  from addAppToProject_linked[OF assms, of newId now] Cons.IH c show ?case by simp
qed

text \<open>
  C4. When the project or the app is missing or belongs to another user,
  addAppToProject returns false and stores nothing. When the caller owns both: a call that
  finds the link returns true and leaves the store as it is; a call that finds no link and
  draws an unused id returns true and appends one link row. So, in a store that respects
  the unique index, after a first call that either finds the link or draws an unused id,
  and after any number of further calls, exactly one row links the project to the app.
\<close>

theorem addAppToProject_idempotent:
  "(ownedProject u p d = None \<or> find (\<lambda>x. a_id x = a \<and> a_userId x = u) (apps d) = None
      \<longrightarrow> addAppToProject newId now u p a d = (Inr False, d))
   \<and> (ownedProject u p d \<noteq> None \<and> find (\<lambda>x. a_id x = a \<and> a_userId x = u) (apps d) \<noteq> None
        \<and> 0 < linkCount p a d
      \<longrightarrow> addAppToProject newId now u p a d = (Inr True, d))
   \<and> (ownedProject u p d \<noteq> None \<and> find (\<lambda>x. a_id x = a \<and> a_userId x = u) (apps d) \<noteq> None
        \<and> linkCount p a d = 0 \<and> newId \<notin> set (map pa_id (projectApps d))
      \<longrightarrow> addAppToProject newId now u p a d =
            (Inr True, d\<lparr>projectApps := projectApps d @
               [\<lparr>pa_id = newId, pa_projectId = p, pa_appId = a, pa_addedAt = Some now\<rparr>]\<rparr>))
   \<and> (wf_db d \<and> ownedProject u p d \<noteq> None
        \<and> find (\<lambda>x. a_id x = a \<and> a_userId x = u) (apps d) \<noteq> None
        \<and> (0 < linkCount p a d \<or> newId \<notin> set (map pa_id (projectApps d)))
      \<longrightarrow> (\<forall>calls. linkCount p a (addAppToProject_calls ((newId, now) # calls) u p a d) = 1))"
proof (intro conjI impI allI)
  assume "ownedProject u p d = None \<or> find (\<lambda>x. a_id x = a \<and> a_userId x = u) (apps d) = None"
  then show "addAppToProject newId now u p a d = (Inr False, d)"
    by (auto simp: addAppToProject_def split: option.splits)
next
  assume "ownedProject u p d \<noteq> None \<and> find (\<lambda>x. a_id x = a \<and> a_userId x = u) (apps d) \<noteq> None
        \<and> 0 < linkCount p a d"
  then show "addAppToProject newId now u p a d = (Inr True, d)"
    by (simp add: addAppToProject_linked)
next
  assume "ownedProject u p d \<noteq> None \<and> find (\<lambda>x. a_id x = a \<and> a_userId x = u) (apps d) \<noteq> None
        \<and> linkCount p a d = 0 \<and> newId \<notin> set (map pa_id (projectApps d))"
  then show "addAppToProject newId now u p a d =
            (Inr True, d\<lparr>projectApps := projectApps d @
               [\<lparr>pa_id = newId, pa_projectId = p, pa_appId = a, pa_addedAt = Some now\<rparr>]\<rparr>)"
    by (simp add: addAppToProject_fresh)
next
  fix calls
  assume a: "wf_db d \<and> ownedProject u p d \<noteq> None
        \<and> find (\<lambda>x. a_id x = a \<and> a_userId x = u) (apps d) \<noteq> None
        \<and> (0 < linkCount p a d \<or> newId \<notin> set (map pa_id (projectApps d)))"
  then have o: "ownedProject u p d \<noteq> None"
    and f: "find (\<lambda>x. a_id x = a \<and> a_userId x = u) (apps d) \<noteq> None" by simp_all
  from a have "wf_db d" by simp
  then have le: "linkCount p a d \<le> 1" by (rule linkCount_le_one)
  show "linkCount p a (addAppToProject_calls ((newId, now) # calls) u p a d) = 1"
  proof (cases "0 < linkCount p a d")
    case True
    with addAppToProject_calls_linked[OF o f True, of "(newId, now) # calls"] le
    show ?thesis by simp
  next
    case False
    with a have z: "linkCount p a d = 0" and n: "newId \<notin> set (map pa_id (projectApps d))"
      by simp_all
    let ?d' = "d\<lparr>projectApps := projectApps d @
               [\<lparr>pa_id = newId, pa_projectId = p, pa_appId = a, pa_addedAt = Some now\<rparr>]\<rparr>"
    have s: "addAppToProject newId now u p a d = (Inr True, ?d')"
      by (rule addAppToProject_fresh[OF o f z n])
    have o': "ownedProject u p ?d' \<noteq> None" using o by (simp add: ownedProject_def)
    have f': "find (\<lambda>x. a_id x = a \<and> a_userId x = u) (apps ?d') \<noteq> None" using f by simp
    have c: "linkCount p a ?d' = 1" using z by (simp add: linkCount_def)
    then have "0 < linkCount p a ?d'" by simp
    from addAppToProject_calls_linked[OF o' f' this, of calls] s c show ?thesis by simp
  qed
qed

theorem addAppToProject_idempotent_witness:
  "addAppToProject ''l2'' 5000 ''alice'' ''r1'' ''a1'' ex_db = (Inr True, ex_db)
   \<and> addAppToProject ''l2'' 5000 ''bob'' ''r1'' ''a1'' ex_db = (Inr False, ex_db)
   \<and> linkCount ''r1'' ''a1''
        (addAppToProject_calls [(''l2'', 5000), (''l3'', 5001), (''l4'', 5002)]
           ''alice'' ''r1'' ''a1'' (ex_db\<lparr>projectApps := []\<rparr>)) = 1"
proof -
  have o: "ownedProject ''alice'' ''r1'' ex_db \<noteq> None"
    "ownedProject ''alice'' ''r1'' (ex_db\<lparr>projectApps := []\<rparr>) \<noteq> None"
    "ownedProject ''bob'' ''r1'' ex_db = None"
    by (simp_all add: ownedProject_def ex_db_def ex_project_def)
  have f: "find (\<lambda>x. a_id x = ''a1'' \<and> a_userId x = ''alice'') (apps ex_db) \<noteq> None"
    "find (\<lambda>x. a_id x = ''a1'' \<and> a_userId x = ''alice'') (apps (ex_db\<lparr>projectApps := []\<rparr>)) \<noteq> None"
    by (simp_all add: ex_db_def)
  have l: "0 < linkCount ''r1'' ''a1'' ex_db"
    by (simp add: linkCount_def ex_db_def)
  have w: "wf_db (ex_db\<lparr>projectApps := []\<rparr>)"
    using wf_ex_db by (simp add: wf_db_def)
  have n: "''l2'' \<notin> set (map pa_id (projectApps (ex_db\<lparr>projectApps := []\<rparr>)))" by simp
  from addAppToProject_idempotent[of "''alice''" "''r1''" ex_db "''a1''" "''l2''" 5000] o f l
  have 1: "addAppToProject ''l2'' 5000 ''alice'' ''r1'' ''a1'' ex_db = (Inr True, ex_db)"
    by blast
  from addAppToProject_idempotent[of "''bob''" "''r1''" ex_db "''a1''" "''l2''" 5000] o
  have 2: "addAppToProject ''l2'' 5000 ''bob'' ''r1'' ''a1'' ex_db = (Inr False, ex_db)"
    by blast
  from addAppToProject_idempotent[of "''alice''" "''r1''" "ex_db\<lparr>projectApps := []\<rparr>"
      "''a1''" "''l2''" 5000] o f w n
  have 3: "linkCount ''r1'' ''a1''
        (addAppToProject_calls [(''l2'', 5000), (''l3'', 5001), (''l4'', 5002)]
           ''alice'' ''r1'' ''a1'' (ex_db\<lparr>projectApps := []\<rparr>)) = 1"
    by blast
  from 1 2 3 show ?thesis by blast
qed

section \<open>The apps of a project\<close>

lemma distinct_of_distinct_key: "distinct (map key xs) \<Longrightarrow> distinct xs"
  by (rule distinct_map[THEN iffD1, THEN conjunct1])

lemma distinct_join:
  assumes "distinct rows" and "distinct (map fk links)"
  shows "distinct (concat (map (\<lambda>l. filter (\<lambda>x. fk l = key x) rows) links))"
  using assms(2)
proof (induction links)
  case Nil
  show ?case by simp
next
  case (Cons l links)
  have "set (filter (\<lambda>x. fk l = key x) rows) \<inter>
        set (concat (map (\<lambda>l. filter (\<lambda>x. fk l = key x) rows) links)) = {}"
  proof (rule ccontr)
    assume "\<not> ?thesis"
    then obtain x l' where "fk l = key x" "l' \<in> set links" "fk l' = key x" by auto
    with Cons.prems show False by (metis distinct_key_head)
  qed
  with Cons assms(1) show ?case by simp
qed

text \<open>
  C7. For a project the caller does not own, or that does not exist, getProjectApps
  returns the empty list. For a project the caller owns it returns the App rows whose id
  is the app_id of one of the project's link rows, and only those; in a store that
  respects its keys, each of them once.
\<close>

theorem getProjectApps_join:
  "(ownedProject u p d = None \<longrightarrow> getProjectApps u p d = [])
   \<and> (ownedProject u p d \<noteq> None \<longrightarrow>
        set (getProjectApps u p d) =
          {x \<in> set (apps d). \<exists>pa \<in> set (projectApps d). pa_projectId pa = p \<and> pa_appId pa = a_id x})
   \<and> (ownedProject u p d \<noteq> None \<and> wf_db d \<longrightarrow> distinct (getProjectApps u p d))"
proof (intro conjI impI)
  assume "ownedProject u p d = None"
  then show "getProjectApps u p d = []" by (simp add: getProjectApps_def)
next
  assume "ownedProject u p d \<noteq> None"
  then show "set (getProjectApps u p d) =
      {x \<in> set (apps d). \<exists>pa \<in> set (projectApps d). pa_projectId pa = p \<and> pa_appId pa = a_id x}"
    by (auto simp: getProjectApps_def)
next
  assume a: "ownedProject u p d \<noteq> None \<and> wf_db d"
  then have rows: "distinct (apps d)"
    by (auto simp: wf_db_def intro: distinct_of_distinct_key)
  let ?links = "filter (\<lambda>pa. pa_projectId pa = p) (projectApps d)"
  from a have "distinct (map (\<lambda>pa. (pa_projectId pa, pa_appId pa)) ?links)"
    by (simp add: wf_db_def distinct_map_filter)
  moreover have "map (\<lambda>pa. (pa_projectId pa, pa_appId pa)) ?links =
                 map (\<lambda>pa. (p, pa_appId pa)) ?links"
    by (rule map_cong) simp_all
  ultimately have "distinct (map (\<lambda>pa. (p, pa_appId pa)) ?links)" by simp
  then have "distinct (map pa_appId ?links)"
    by (simp add: distinct_map inj_on_def)
  from distinct_join[OF rows this, of a_id] a show "distinct (getProjectApps u p d)"
    by (auto simp: getProjectApps_def)
qed

theorem getProjectApps_join_witness:
  "getProjectApps ''bob'' ''r1'' ex_db = []
   \<and> getProjectApps ''alice'' ''r9'' ex_db = []
   \<and> set (getProjectApps ''alice'' ''r1'' ex_db) =
       {\<lparr>a_id = ''a1'', a_userId = ''alice'', a_columns = ''App one''\<rparr>}"
proof -
  have o: "ownedProject ''bob'' ''r1'' ex_db = None" "ownedProject ''alice'' ''r9'' ex_db = None"
    "ownedProject ''alice'' ''r1'' ex_db \<noteq> None"
    by (simp_all add: ownedProject_def ex_db_def ex_project_def)
  have s: "{x \<in> set (apps ex_db).
            \<exists>pa \<in> set (projectApps ex_db). pa_projectId pa = ''r1'' \<and> pa_appId pa = a_id x} =
           {\<lparr>a_id = ''a1'', a_userId = ''alice'', a_columns = ''App one''\<rparr>}"
    by (auto simp: ex_db_def)
  from getProjectApps_join[of "''bob''" "''r1''" ex_db] o
  have 1: "getProjectApps ''bob'' ''r1'' ex_db = []" by blast
  from getProjectApps_join[of "''alice''" "''r9''" ex_db] o
  have 2: "getProjectApps ''alice'' ''r9'' ex_db = []" by blast
  from getProjectApps_join[of "''alice''" "''r1''" ex_db] o
  have "set (getProjectApps ''alice'' ''r1'' ex_db) =
          {x \<in> set (apps ex_db).
            \<exists>pa \<in> set (projectApps ex_db). pa_projectId pa = ''r1'' \<and> pa_appId pa = a_id x}"
    by blast
  with s have 3: "set (getProjectApps ''alice'' ''r1'' ex_db) =
       {\<lparr>a_id = ''a1'', a_userId = ''alice'', a_columns = ''App one''\<rparr>}"
    by simp
  from 1 2 3 show ?thesis by blast
qed

section \<open>Truncating a document\<close>

lemma length_truncationMarker: "length truncationMarker = 25"
  by (simp add: truncationMarker_def)

text \<open>
  C8, as the code has it. For a file that passes the size and type checks and whose text
  is extracted, the attachment has truncated set exactly when the extracted text is
  longer than maxChars. In that case textContent is the first maxChars characters of the
  extracted text followed by the 25 characters of the truncation marker (two line feeds
  and the words ... [Content truncated]), so it is longer than maxChars; otherwise it is
  the extracted text.
\<close>

theorem processDocumentFile_truncation:
  assumes "f_size f \<le> maxSizeBytes opts" and "resolveMimeType f = Some mimeType"
    and "extractText mimeType f = Inr extracted"
  shows "(\<exists>doc. processDocumentFile opts newId f = Inr doc
      \<and> da_truncated doc = (length extracted > maxChars opts)
      \<and> (length extracted > maxChars opts \<longrightarrow>
            da_textContent doc = take (maxChars opts) extracted @ truncationMarker
            \<and> length (da_textContent doc) = maxChars opts + 25)
      \<and> (length extracted \<le> maxChars opts \<longrightarrow> da_textContent doc = extracted))
    \<and> maxChars defaultOptions = 100000"
  using assms
  by (auto simp: processDocumentFile_def Let_def length_truncationMarker defaultOptions_def
      MAX_DOCUMENT_CHARS_def)

theorem processDocumentFile_truncation_witness:
  "processDocumentFile \<lparr>maxDocuments = 3, maxSizeBytes = 100, maxChars = 6\<rparr> ''doc-1''
      \<lparr>f_name = ''a.txt'', f_size = 6, f_type = ''text/plain'', f_text = Some ''abcdef''\<rparr> =
     Inr \<lparr>da_id = ''doc-1'', da_filename = ''a.txt'', da_mimeType = ''text/plain'',
          da_textContent = ''abcdef'', da_size = 6, da_lineCount = 1, da_truncated = False,
          da_extension = ''.txt''\<rparr>
   \<and> (\<exists>doc. processDocumentFile \<lparr>maxDocuments = 3, maxSizeBytes = 100, maxChars = 5\<rparr> ''doc-2''
          \<lparr>f_name = ''a.txt'', f_size = 6, f_type = ''text/plain'', f_text = Some ''abcdef''\<rparr> =
          Inr doc
        \<and> da_truncated doc
        \<and> da_textContent doc = ''abcde'' @ truncationMarker
        \<and> length (da_textContent doc) = 30)"
proof -
  let ?opts = "\<lparr>maxDocuments = 3, maxSizeBytes = 100, maxChars = 6\<rparr>"
  let ?f = "\<lparr>f_name = ''a.txt'', f_size = 6, f_type = ''text/plain'', f_text = Some ''abcdef''\<rparr>"
  have s: "f_size ?f \<le> maxSizeBytes ?opts" by simp
  have m: "resolveMimeType ?f = Some ''text/plain''"
    by (simp add: resolveMimeType_def isSupportedDocumentType_def
        SUPPORTED_DOCUMENT_MIME_TYPES_def)
  have e: "extractText ''text/plain'' ?f = Inr ''abcdef''"
    by (simp add: extractText_def isTextBasedDocument_def readTextContent_def)
  from processDocumentFile_truncation[OF s m e, of "''doc-1''"]
  obtain doc where d: "processDocumentFile ?opts ''doc-1'' ?f = Inr doc"
    and "da_truncated doc = False" "da_textContent doc = ''abcdef''"
    by auto
  moreover from d have "da_id doc = ''doc-1''" "da_filename doc = ''a.txt''"
    "da_mimeType doc = ''text/plain''" "da_size doc = 6" "da_lineCount doc = 1"
    "da_extension doc = ''.txt''"
    by (auto simp: processDocumentFile_def m e Let_def)
  ultimately have 1: "processDocumentFile ?opts ''doc-1'' ?f =
     Inr \<lparr>da_id = ''doc-1'', da_filename = ''a.txt'', da_mimeType = ''text/plain'',
          da_textContent = ''abcdef'', da_size = 6, da_lineCount = 1, da_truncated = False,
          da_extension = ''.txt''\<rparr>"
    by (cases doc) simp
  let ?opts5 = "\<lparr>maxDocuments = 3, maxSizeBytes = 100, maxChars = 5\<rparr>"
  have s5: "f_size ?f \<le> maxSizeBytes ?opts5" by simp
  from processDocumentFile_truncation[OF s5 m e, of "''doc-2''"]
  have 2: "\<exists>doc. processDocumentFile ?opts5 ''doc-2'' ?f = Inr doc
        \<and> da_truncated doc
        \<and> da_textContent doc = ''abcde'' @ truncationMarker
        \<and> length (da_textContent doc) = 30"
    by auto
  from 1 2 show ?thesis by (rule conjI)
qed

text \<open>
  With a budget of three characters and the text abcdef, the stored text is not the first
  three characters abc: the marker follows them, and the stored text has 28 characters.
\<close>

theorem processDocumentFile_clip_counterexample:
  "processDocumentFile \<lparr>maxDocuments = 3, maxSizeBytes = 100, maxChars = 3\<rparr> ''doc-1''
      \<lparr>f_name = ''a.txt'', f_size = 6, f_type = ''text/plain'', f_text = Some ''abcdef''\<rparr> =
     Inr \<lparr>da_id = ''doc-1'', da_filename = ''a.txt'', da_mimeType = ''text/plain'',
          da_textContent = ''abc'' @ [CHR 0x0A, CHR 0x0A] @ ''... [Content truncated]'',
          da_size = 6, da_lineCount = 3, da_truncated = True, da_extension = ''.txt''\<rparr>
   \<and> take 3 ''abcdef'' = ''abc''
   \<and> length (''abc'' @ [CHR 0x0A, CHR 0x0A] @ ''... [Content truncated]'') = 28"
  by (simp add: processDocumentFile_def resolveMimeType_def isSupportedDocumentType_def
      SUPPORTED_DOCUMENT_MIME_TYPES_def extractText_def isTextBasedDocument_def
      readTextContent_def truncationMarker_def Let_def)

section \<open>The documents list\<close>

lemma length_validDocs: "length (validDocs opts files) \<le> length files"
proof (induction files)
  case Nil
  show ?case by (simp add: validDocs_def)
next
  case (Cons x files)
  obtain newId f where "x = (newId, f)" by (cases x)
  with Cons show ?case
    by (cases "processDocumentFile opts newId f") (simp_all add: validDocs_def)
qed

text \<open>
  What holds of the three operations one at a time. A batch that would take the rendered
  list past the limit is rejected whole. When the list the updater receives is no longer
  than the list the limit was tested against (as it is when no other addDocuments call
  is under way), the result stays within the limit. Removing and clearing never
  lengthen the list.
\<close>

lemma addDocuments_rejects_batch:
  "length documents + length files > maxDocuments opts \<Longrightarrow>
     addDocuments opts documents files prev = prev"
  by (simp add: addDocuments_def)

lemma addDocuments_within_limit:
  assumes "length prev \<le> length documents" and "length prev \<le> maxDocuments opts"
  shows "length (addDocuments opts documents files prev) \<le> maxDocuments opts"
  using assms length_validDocs[of opts files]
  by (auto simp: addDocuments_def)

lemma removeDocument_shrinks: "length (removeDocument ident prev) \<le> length prev"
  by (simp add: removeDocument_def)

lemma clearDocuments_empty: "length (clearDocuments prev) = 0"
  by (simp add: clearDocuments_def)

text \<open>
  C10 fails for two addDocuments calls that overlap. Both are made from the render in which
  the list is empty, so both test 0 + 2 against the limit 3 and pass; the second updater
  receives the two documents the first one appended, and the list ends with four.
\<close>

theorem addDocuments_overlapping_calls:
  "maxDocuments defaultOptions = 3
   \<and> length (addDocuments defaultOptions []
        [(''doc-3'', \<lparr>f_name = ''c.md'', f_size = 1, f_type = ''text/markdown'', f_text = Some ''c''\<rparr>),
         (''doc-4'', \<lparr>f_name = ''d.md'', f_size = 1, f_type = ''text/markdown'', f_text = Some ''d''\<rparr>)]
        (addDocuments defaultOptions []
           [(''doc-1'', \<lparr>f_name = ''a.md'', f_size = 1, f_type = ''text/markdown'', f_text = Some ''a''\<rparr>),
            (''doc-2'', \<lparr>f_name = ''b.md'', f_size = 1, f_type = ''text/markdown'', f_text = Some ''b''\<rparr>)]
           [])) = 4"
  by (simp add: addDocuments_def validDocs_def defaultOptions_def MAX_DOCUMENTS_PER_MESSAGE_def
      MAX_DOCUMENT_SIZE_BYTES_def MAX_DOCUMENT_CHARS_def processDocumentFile_def
      resolveMimeType_def isSupportedDocumentType_def SUPPORTED_DOCUMENT_MIME_TYPES_def
      extractText_def isTextBasedDocument_def readTextContent_def Let_def)

end
